theory Spec2Isabelle
  imports Complex_Main "HOL-Library.AList"
begin

section \<open>The position relay (worker.js)\<close>

subsection \<open>Data\<close>

text \<open>
  One stored player record, as \<^verbatim>\<open>handleUpdateLocation\<close> builds it. Coordinates and
  accuracy are JavaScript numbers, idealised as reals; instants are milliseconds since the
  epoch, as \<^verbatim>\<open>Date.now()\<close> yields them.
\<close>

record playerData =
  playerId :: string
  playerName :: string
  role :: string
  gameCode :: string
  lat :: real
  lon :: real
  accuracy :: real
  timestamp :: int

text \<open>
  A value of the request body of which \<^verbatim>\<open>typeof\<close> is taken: a number, or anything
  else that is neither \<^verbatim>\<open>undefined\<close> nor \<^verbatim>\<open>null\<close>.
\<close>

datatype jsval = Num real | NonNumber

text \<open>
  The parsed JSON body of \<^verbatim>\<open>POST /updateLocation\<close>. \<open>None\<close> is a field that is
  \<^verbatim>\<open>undefined\<close> or \<^verbatim>\<open>null\<close>. String fields are strings, \<open>accuracy\<close> a number
  and \<open>timestamp\<close> an integral number whenever present.
\<close>

record updateBody =
  req_playerId :: "string option"
  req_playerName :: "string option"
  req_role :: "string option"
  req_gameCode :: "string option"
  req_lat :: "jsval option"
  req_lon :: "jsval option"
  req_accuracy :: "real option"
  req_timestamp :: "int option"

text \<open>\<^verbatim>\<open>gameData\<close>: gameCode -> (playerId -> playerData). A JavaScript \<^verbatim>\<open>Map\<close>
  iterates in insertion order and \<^verbatim>\<open>set\<close> on a present key keeps its place, which is
  what \<^const>\<open>AList.update\<close> does on an association list.\<close>

type_synonym game = "(string \<times> playerData) list"
type_synonym gameData = "(string \<times> game) list"

text \<open>\<^verbatim>\<open>rateLimitMap\<close>: IP -> { count, resetTime }.\<close>

record limit =
  count :: nat
  resetTime :: int

type_synonym rateLimitMap = "string \<rightharpoonup> limit"

record worker =
  gameData :: gameData
  rateLimitMap :: rateLimitMap

datatype body =
    ErrorBody string
  | UpdateOk nat
  | LocationsBody "playerData list" nat
  | HealthBody nat
  | NoBody

record response =
  status :: nat
  allowOrigin :: string
  content :: body

datatype httpMethod = GET | POST | OPTIONS | OtherMethod

record request =
  httpMethod :: httpMethod
  path :: string
  origin :: "string option"
  connectingIp :: "string option"
  queryGameCode :: "string option"
  jsonBody :: "updateBody option"

subsection \<open>Configuration\<close>

definition MAX_POSITION_AGE :: int where
  "MAX_POSITION_AGE = 15 * 60 * 1000"

definition RATE_LIMIT :: nat where
  "RATE_LIMIT = 60"

definition ALLOWED_ORIGINS :: "string list" where
  "ALLOWED_ORIGINS = [''https://philoutram.github.io'']"

subsection \<open>Helpers\<close>

definition getCorsHeaders :: "string option \<Rightarrow> string" where
  "getCorsHeaders orig =
     (case orig of
        None \<Rightarrow> hd ALLOWED_ORIGINS
      | Some o' \<Rightarrow> if o' \<in> set ALLOWED_ORIGINS then o' else hd ALLOWED_ORIGINS)"

definition jsonResponse :: "body \<Rightarrow> nat \<Rightarrow> string option \<Rightarrow> response" where
  "jsonResponse data st orig =
     \<lparr>status = st, allowOrigin = getCorsHeaders orig, content = data\<rparr>"

text \<open>\<^verbatim>\<open>String.prototype.toUpperCase\<close> on ASCII text.\<close>

definition toUpperChar :: "char \<Rightarrow> char" where
  "toUpperChar c =
     (let n = (of_char c :: nat)
      in if 97 \<le> n \<and> n \<le> 122 then char_of (n - 32) else c)"

definition toUpperCase :: "string \<Rightarrow> string" where
  "toUpperCase s = map toUpperChar s"

text \<open>
  \<^verbatim>\<open>checkRateLimit(ip)\<close>: the verdict and the map it leaves. \<open>now\<close> is the value of
  \<^verbatim>\<open>Date.now()\<close>.
\<close>

definition checkRateLimit :: "rateLimitMap \<Rightarrow> int \<Rightarrow> string \<Rightarrow> bool \<times> rateLimitMap" where
  "checkRateLimit m now ip =
     (case m ip of
        None \<Rightarrow> (True, m(ip \<mapsto> \<lparr>count = 1, resetTime = now + 60000\<rparr>))
      | Some l \<Rightarrow>
          if now > resetTime l then (True, m(ip \<mapsto> \<lparr>count = 1, resetTime = now + 60000\<rparr>))
          else if count l \<ge> RATE_LIMIT then (False, m)
          else (True, m(ip \<mapsto> l\<lparr>count := count l + 1\<rparr>)))"

text \<open>
  \<^verbatim>\<open>cleanOldData()\<close>. The inner loop deletes the players whose timestamp lies before
  the cutoff, the outer loop then deletes the game if no player is left; the last loop
  deletes the rate-limit entries whose window has passed.
\<close>

definition cleanPlayers :: "int \<Rightarrow> game \<Rightarrow> game" where
  "cleanPlayers cutoff players = filter (\<lambda>(pid, pd). \<not> timestamp pd < cutoff) players"

fun cleanGames :: "int \<Rightarrow> gameData \<Rightarrow> gameData" where
  "cleanGames cutoff [] = []"
| "cleanGames cutoff ((code, players) # rest) =
     (let players' = cleanPlayers cutoff players
      in if length players' = 0 then cleanGames cutoff rest
         else (code, players') # cleanGames cutoff rest)"

definition cleanRateLimits :: "int \<Rightarrow> rateLimitMap \<Rightarrow> rateLimitMap" where
  "cleanRateLimits now m =
     (\<lambda>ip. case m ip of
              None \<Rightarrow> None
            | Some l \<Rightarrow> if now > resetTime l then None else Some l)"

definition cleanOldData :: "worker \<Rightarrow> int \<Rightarrow> worker" where
  "cleanOldData w now =
     (let cutoff = now - MAX_POSITION_AGE
      in \<lparr>gameData = cleanGames cutoff (gameData w),
          rateLimitMap = cleanRateLimits now (rateLimitMap w)\<rparr>)"

subsection \<open>API handlers\<close>

text \<open>
  \<^verbatim>\<open>handleUpdateLocation\<close>. A body that does not parse, or is not an object, raises
  inside the \<^verbatim>\<open>try\<close> and is answered by the \<^verbatim>\<open>catch\<close>: that is \<open>None\<close>.
\<close>

definition missingField :: "updateBody \<Rightarrow> string option" where
  "missingField d =
     (if req_playerId d = None then Some ''playerId''
      else if req_playerName d = None then Some ''playerName''
      else if req_role d = None then Some ''role''
      else if req_gameCode d = None then Some ''gameCode''
      else if req_lat d = None then Some ''lat''
      else if req_lon d = None then Some ''lon''
      else if req_timestamp d = None then Some ''timestamp''
      else None)"

definition invalidNumber :: "jsval option \<Rightarrow> real \<Rightarrow> bool" where
  "invalidNumber v bound =
     (case v of
        Some (Num x) \<Rightarrow> x < - bound \<or> x > bound
      | _ \<Rightarrow> True)"

definition numberOf :: "jsval option \<Rightarrow> real" where
  "numberOf v = (case v of Some (Num x) \<Rightarrow> x | _ \<Rightarrow> 0)"

text \<open>\<^verbatim>\<open>data.accuracy || 0\<close>: the left operand unless it is falsy.\<close>

definition orZero :: "real option \<Rightarrow> real" where
  "orZero a = (case a of None \<Rightarrow> 0 | Some x \<Rightarrow> if x = 0 then 0 else x)"

definition getOrCreateGame :: "gameData \<Rightarrow> string \<Rightarrow> gameData" where
  "getOrCreateGame gd code =
     (if map_of gd code = None then AList.update code [] gd else gd)"

text \<open>The sanitised inputs, and the object that \<^verbatim>\<open>game.set\<close> stores for a body that
  has passed the checks.\<close>

definition sanitizedGameCode :: "updateBody \<Rightarrow> string" where
  "sanitizedGameCode d = take 10 (toUpperCase (the (req_gameCode d)))"

definition sanitizedPlayerId :: "updateBody \<Rightarrow> string" where
  "sanitizedPlayerId d = take 50 (the (req_playerId d))"

definition sanitizedPlayerName :: "updateBody \<Rightarrow> string" where
  "sanitizedPlayerName d = take 20 (the (req_playerName d))"

definition newPlayerData :: "updateBody \<Rightarrow> playerData" where
  "newPlayerData d =
     \<lparr>playerId = sanitizedPlayerId d,
      playerName = sanitizedPlayerName d,
      role = the (req_role d),
      gameCode = sanitizedGameCode d,
      lat = numberOf (req_lat d),
      lon = numberOf (req_lon d),
      accuracy = orZero (req_accuracy d),
      timestamp = the (req_timestamp d)\<rparr>"

definition handleUpdateLocation ::
  "gameData \<Rightarrow> updateBody option \<Rightarrow> string option \<Rightarrow> response \<times> gameData" where
  "handleUpdateLocation gd body orig =
     (case body of
        None \<Rightarrow> (jsonResponse (ErrorBody ''Invalid request data'') 400 orig, gd)
      | Some d \<Rightarrow>
          (case missingField d of
             Some field \<Rightarrow>
               (jsonResponse (ErrorBody (''Missing required field: '' @ field)) 400 orig, gd)
           | None \<Rightarrow>
               if invalidNumber (req_lat d) 90 then
                 (jsonResponse (ErrorBody ''Invalid latitude'') 400 orig, gd)
               else if invalidNumber (req_lon d) 180 then
                 (jsonResponse (ErrorBody ''Invalid longitude'') 400 orig, gd)
               else if the (req_role d) \<notin> set [''hunter'', ''hunted''] then
                 (jsonResponse (ErrorBody ''Invalid role'') 400 orig, gd)
               else
                 (let code = sanitizedGameCode d;
                      pid = sanitizedPlayerId d;
                      gd1 = getOrCreateGame gd code;
                      g = the (map_of gd1 code);
                      g' = AList.update pid (newPlayerData d) g
                  in (jsonResponse (UpdateOk (length g')) 200 orig,
                      AList.update code g' gd1))))"

definition handleGetLocations :: "gameData \<Rightarrow> string option \<Rightarrow> string option \<Rightarrow> response" where
  "handleGetLocations gd q orig =
     (case q of
        None \<Rightarrow> jsonResponse (ErrorBody ''Missing gameCode parameter'') 400 orig
      | Some c \<Rightarrow>
          if c = [] then jsonResponse (ErrorBody ''Missing gameCode parameter'') 400 orig
          else
            (case map_of gd (take 10 (toUpperCase c)) of
               None \<Rightarrow> jsonResponse (LocationsBody [] 0) 200 orig
             | Some g \<Rightarrow>
                 (let locations = map snd g
                  in jsonResponse (LocationsBody locations (length locations)) 200 orig)))"

definition handleOptions :: "string option \<Rightarrow> response" where
  "handleOptions orig = \<lparr>status = 204, allowOrigin = getCorsHeaders orig, content = NoBody\<rparr>"

definition handleNotFound :: "string option \<Rightarrow> response" where
  "handleNotFound orig = jsonResponse (ErrorBody ''Endpoint not found'') 404 orig"

text \<open>
  \<^verbatim>\<open>handleRequest\<close>, with the worker's two global maps passed in and returned, and
  \<open>now\<close> the time of receipt read by \<^verbatim>\<open>Date.now()\<close> in \<^verbatim>\<open>checkRateLimit\<close> and
  \<^verbatim>\<open>cleanOldData\<close>.
\<close>

definition clientIp :: "request \<Rightarrow> string" where
  "clientIp r =
     (case connectingIp r of
        None \<Rightarrow> ''unknown''
      | Some a \<Rightarrow> if a = [] then ''unknown'' else a)"

definition handleRequest :: "worker \<Rightarrow> int \<Rightarrow> request \<Rightarrow> response \<times> worker" where
  "handleRequest w now r =
     (if httpMethod r = OPTIONS then (handleOptions (origin r), w)
      else
        (let (ok, m) = checkRateLimit (rateLimitMap w) now (clientIp r)
         in if \<not> ok then
              (jsonResponse (ErrorBody ''Rate limit exceeded. Please try again later.'') 429
                 (origin r),
               w\<lparr>rateLimitMap := m\<rparr>)
            else
              (let w1 = cleanOldData (w\<lparr>rateLimitMap := m\<rparr>) now
               in if path r = ''/updateLocation'' \<and> httpMethod r = POST then
                    (let (resp, gd) = handleUpdateLocation (gameData w1) (jsonBody r) (origin r)
                     in (resp, w1\<lparr>gameData := gd\<rparr>))
                  else if path r = ''/locations'' \<and> httpMethod r = GET then
                    (handleGetLocations (gameData w1) (queryGameCode r) (origin r), w1)
                  else if path r = ''/'' \<or> path r = ''/health'' then
                    (jsonResponse (HealthBody (length (gameData w1))) 200 (origin r), w1)
                  else (handleNotFound (origin r), w1))))"

text \<open>The worker answering requests one after the other, each with its time of receipt.\<close>

fun serve :: "worker \<Rightarrow> (int \<times> request) list \<Rightarrow> response list \<times> worker" where
  "serve w [] = ([], w)"
| "serve w ((now, r) # rs) =
     (let (resp, w1) = handleRequest w now r;
          (resps, w2) = serve w1 rs
      in (resp # resps, w2))"

section \<open>The client engine (app.js)\<close>

subsection \<open>Configuration and state\<close>

definition POSITION_DELAY :: int where
  "POSITION_DELAY = 120000"

definition GAME_DURATION :: int where
  "GAME_DURATION = 600000"

definition CAPTURE_DISTANCE :: real where
  "CAPTURE_DISTANCE = 50"

definition MAX_ACCURACY_THRESHOLD :: real where
  "MAX_ACCURACY_THRESHOLD = 100"

record position =
  pos_lat :: real
  pos_lon :: real
  pos_accuracy :: real
  pos_timestamp :: int

text \<open>A marker on the map: where it stands, and the popup bound to it when it was
  created (name, role, age of the position in whole seconds).\<close>

record marker =
  latlng :: "real \<times> real"
  popup :: "string \<times> string \<times> int"

text \<open>
  \<^verbatim>\<open>gameState\<close>, followed by the page elements the functions below write. A field that
  is \<^verbatim>\<open>null\<close> is \<open>None\<close>; \<open>hasMap\<close> says that \<^verbatim>\<open>gameState.map\<close> is set,
  \<open>updateInterval\<close>, \<open>timerInterval\<close> and \<open>watchId\<close> that the handle is held.
\<close>

record gameState =
  gs_playerId :: "string option"
  gs_playerName :: "string option"
  playerRole :: "string option"
  gs_gameCode :: "string option"
  isActive :: bool
  startTime :: "int option"
  hasMap :: bool
  otherMarkers :: "string \<rightharpoonup> marker"
  updateInterval :: bool
  timerInterval :: bool
  lastPosition :: "position option"
  watchId :: bool
  endTitle :: string
  endMessage :: string
  gameScreenActive :: bool
  endScreenActive :: bool
  playerCount :: nat
  timerText :: string
  timerClass :: string

subsection \<open>Utility functions\<close>

text \<open>
  \<^verbatim>\<open>Math.atan2(y, x)\<close> on the reals.
\<close>

definition atan2 :: "real \<Rightarrow> real \<Rightarrow> real" where
  "atan2 y x =
     (if x > 0 then arctan (y / x)
      else if x < 0 \<and> y \<ge> 0 then arctan (y / x) + pi
      else if x < 0 then arctan (y / x) - pi
      else if y > 0 then pi / 2
      else if y < 0 then - (pi / 2)
      else 0)"

text \<open>\<^verbatim>\<open>calculateDistance\<close>: the haversine formula, in exact real arithmetic.\<close>

definition calculateDistance :: "real \<Rightarrow> real \<Rightarrow> real \<Rightarrow> real \<Rightarrow> real" where
  "calculateDistance lat1 lon1 lat2 lon2 =
     (let R = 6371000;
          phi1 = lat1 * pi / 180;
          phi2 = lat2 * pi / 180;
          dphi = (lat2 - lat1) * pi / 180;
          dlambda = (lon2 - lon1) * pi / 180;
          a = sin (dphi / 2) * sin (dphi / 2) +
              cos phi1 * cos phi2 * sin (dlambda / 2) * sin (dlambda / 2);
          c = 2 * atan2 (sqrt a) (sqrt (1 - a))
      in R * c)"

text \<open>Decimal digits of a natural number, as \<^verbatim>\<open>toString\<close> and template strings
  print it.\<close>

fun toString :: "nat \<Rightarrow> string" where
  "toString n =
     (if n < 10 then [char_of (48 + n)]
      else toString (n div 10) @ [char_of (48 + n mod 10)])"

declare toString.simps [simp del]

definition padStart2 :: "string \<Rightarrow> string" where
  "padStart2 s = replicate (2 - length s) (CHR ''0'') @ s"

text \<open>\<^verbatim>\<open>formatTime\<close>, for the non-negative arguments \<^verbatim>\<open>updateTimer\<close> passes.\<close>

definition formatTime :: "int \<Rightarrow> string" where
  "formatTime milliseconds =
     (let totalSeconds = nat (milliseconds div 1000);
          minutes = totalSeconds div 60;
          seconds = totalSeconds mod 60
      in toString minutes @ '':'' @ padStart2 (toString seconds))"

subsection \<open>Game flow\<close>

text \<open>
  \<^verbatim>\<open>endGame(reason, message)\<close>. The titles are written without their leading
  pictograph.
\<close>

definition endGame :: "string \<Rightarrow> string \<Rightarrow> gameState \<Rightarrow> gameState" where
  "endGame reason message s =
     s\<lparr>isActive := False,
       updateInterval := False,
       timerInterval := False,
       watchId := False,
       endTitle :=
         (if reason = ''victory'' then ''Victory!''
          else if reason = ''timeout'' then ''Time's Up!''
          else ''Game Over''),
       endMessage := message,
       gameScreenActive := False,
       endScreenActive := True\<rparr>"

text \<open>
  \<^verbatim>\<open>handlePositionSuccess\<close>: the accuracy gate in front of
  \<^verbatim>\<open>gameState.lastPosition\<close>. The accuracy display and the player's own marker are
  drawn on the page and the map and are not part of the state modelled here.
\<close>

definition handlePositionSuccess :: "int \<Rightarrow> real \<times> real \<times> real \<Rightarrow> gameState \<Rightarrow> gameState" where
  "handlePositionSuccess now coords s =
     (case coords of (latitude, longitude, acc) \<Rightarrow>
        if acc > MAX_ACCURACY_THRESHOLD then s
        else s\<lparr>lastPosition :=
                 Some \<lparr>pos_lat = latitude, pos_lon = longitude, pos_accuracy = acc,
                       pos_timestamp = now\<rparr>\<rparr>)"

subsection \<open>Opponents: display and capture\<close>

definition isOpponent :: "gameState \<Rightarrow> playerData \<Rightarrow> bool" where
  "isOpponent s player =
     ((playerRole s = Some ''hunter'' \<and> role player = ''hunted'') \<or>
      (playerRole s = Some ''hunted'' \<and> role player = ''hunter''))"

text \<open>
  A call either returns or raises; either way it leaves a state behind. The only
  exception that arises below is the \<^verbatim>\<open>TypeError\<close> of calling a method that a value
  does not have.
\<close>

datatype 'a completion = is_Normal: Normal (result: 'a) | Throw (result: 'a)

text \<open>
  \<^verbatim>\<open>gameState.otherMarkers\<close> is a plain object, so reading a property that it does not
  own falls through to \<^verbatim>\<open>Object.prototype\<close>. These are the property names found
  there; each holds a function, or for \<^verbatim>\<open>__proto__\<close> the prototype itself, and all of
  them are truthy and have no method \<^verbatim>\<open>setLatLng\<close>.
\<close>

definition objectPrototypeKeys :: "string list" where
  "objectPrototypeKeys =
     [''constructor'', ''__defineGetter__'', ''__defineSetter__'', ''hasOwnProperty'',
      ''__lookupGetter__'', ''__lookupSetter__'', ''isPrototypeOf'', ''propertyIsEnumerable'',
      ''toString'', ''valueOf'', ''__proto__'', ''toLocaleString'']"

text \<open>
  The number that \<^verbatim>\<open>calculateDistance(lat1, lon1, lat2, lon2)\<close> evaluates to in the
  browser depends on its double arithmetic and on its \<^verbatim>\<open>Math.sin\<close>, \<^verbatim>\<open>Math.cos\<close>,
  \<^verbatim>\<open>Math.sqrt\<close> and \<^verbatim>\<open>Math.atan2\<close>, which the language leaves to the
  implementation. The functions below therefore take the function that the browser
  computes as their first argument; \<^const>\<open>calculateDistance\<close> is the instance in exact
  real arithmetic. The result is only ever compared with \<^verbatim>\<open>CAPTURE_DISTANCE\<close>, and
  a \<^verbatim>\<open>NaN\<close>, for which the comparison is false, is any number above it.
\<close>

type_synonym distanceFn = "real \<Rightarrow> real \<Rightarrow> real \<Rightarrow> real \<Rightarrow> real"

text \<open>
  The state of the loop over \<^verbatim>\<open>locations\<close> in \<^verbatim>\<open>updateOtherPlayers\<close>: the game
  state, the set \<^verbatim>\<open>currentPlayerIds\<close>, and the visible opponents found so far, that
  is the entries for which the callback went past its three \<^verbatim>\<open>return\<close>s, each with
  the age computed for it.
\<close>

type_synonym loopState = "gameState \<times> string set \<times> (playerData \<times> int) list"

text \<open>The check for capture at the end of the callback.\<close>

definition checkCapture :: "distanceFn \<Rightarrow> playerData \<Rightarrow> gameState \<Rightarrow> gameState" where
  "checkCapture calc player s =
     (case lastPosition s of
        None \<Rightarrow> s
      | Some own \<Rightarrow>
          if playerRole s = Some ''hunter'' then
            (let distance = calc (pos_lat own) (pos_lon own) (lat player) (lon player)
             in if distance \<le> CAPTURE_DISTANCE then
                  endGame ''victory'' (''You captured '' @ playerName player @ ''!'') s
                else s)
          else s)"

text \<open>
  Moving the opponent's marker, or creating it. If \<^verbatim>\<open>gameState.otherMarkers\<close> owns
  the player's id, the marker found there is moved. If it does not and the id is a
  property name of \<^verbatim>\<open>Object.prototype\<close>, the value found is truthy all the same, and
  the call of its \<^verbatim>\<open>setLatLng\<close> raises; \<^verbatim>\<open>__proto__\<close> can never be owned.
  Otherwise the marker is created. \<^verbatim>\<open>Math.round(age / 1000)\<close> rounds halves upwards.
\<close>

definition placeMarker :: "playerData \<Rightarrow> int \<Rightarrow> gameState \<Rightarrow> gameState completion" where
  "placeMarker player age s =
     (if playerId player = ''__proto__'' then Throw s
      else
        (case otherMarkers s (playerId player) of
           Some m \<Rightarrow>
             Normal (s\<lparr>otherMarkers := (otherMarkers s)(playerId player \<mapsto>
                                  m\<lparr>latlng := (lat player, lon player)\<rparr>)\<rparr>)
         | None \<Rightarrow>
             if playerId player \<in> set objectPrototypeKeys then Throw s
             else
               Normal (s\<lparr>otherMarkers := (otherMarkers s)(playerId player \<mapsto>
                                    \<lparr>latlng = (lat player, lon player),
                                     popup = (playerName player, role player,
                                              (age + 500) div 1000)\<rparr>)\<rparr>)))"

text \<open>The callback of \<^verbatim>\<open>locations.forEach\<close>.\<close>

definition forEachPlayer ::
  "distanceFn \<Rightarrow> int \<Rightarrow> playerData \<Rightarrow> loopState \<Rightarrow> loopState completion" where
  "forEachPlayer calc now player ls =
     (case ls of (s, currentPlayerIds, visible) \<Rightarrow>
        if Some (playerId player) = gs_playerId s then Normal ls
        else if \<not> isOpponent s player then Normal ls
        else
          (let ids = insert (playerId player) currentPlayerIds;
               age = now - timestamp player
           in if age < POSITION_DELAY then Normal (s, ids, visible)
              else
                (case placeMarker player age s of
                   Throw s1 \<Rightarrow> Throw (s1, ids, visible @ [(player, age)])
                 | Normal s1 \<Rightarrow>
                     Normal (checkCapture calc player s1, ids, visible @ [(player, age)]))))"

text \<open>\<^verbatim>\<open>Array.prototype.forEach\<close>: the callback is called on every element in order,
  whatever an earlier call did to the state, until a call raises.\<close>

fun forEach :: "('a \<Rightarrow> 'b \<Rightarrow> 'b completion) \<Rightarrow> 'a list \<Rightarrow> 'b \<Rightarrow> 'b completion" where
  "forEach callback [] ls = Normal ls"
| "forEach callback (x # xs) ls =
     (case callback x ls of
        Throw ls1 \<Rightarrow> Throw ls1
      | Normal ls1 \<Rightarrow> forEach callback xs ls1)"

text \<open>
  \<^verbatim>\<open>updateOtherPlayers(locations)\<close>. The result is the state left behind together with
  the visible opponents of this call. An exception raised in the loop leaves the function
  at once: the markers are not tidied and the player count is not written.
\<close>

definition updateOtherPlayers ::
  "distanceFn \<Rightarrow> int \<Rightarrow> playerData list option \<Rightarrow> gameState \<Rightarrow>
     (gameState \<times> (playerData \<times> int) list) completion" where
  "updateOtherPlayers calc now locations s =
     (case locations of
        None \<Rightarrow> Normal (s, [])
      | Some locs \<Rightarrow>
          if \<not> hasMap s then Normal (s, [])
          else
            (case forEach (forEachPlayer calc now) locs (s, {}, []) of
               Throw (s1, currentPlayerIds, visible) \<Rightarrow> Throw (s1, visible)
             | Normal (s1, currentPlayerIds, visible) \<Rightarrow>
                 Normal
                   (s1\<lparr>otherMarkers :=
                         (\<lambda>pid. if pid \<in> currentPlayerIds then otherMarkers s1 pid else None),
                       playerCount :=
                         length (filter (\<lambda>p. Some (gameCode p) = gs_gameCode s1) locs)\<rparr>,
                    visible)))"

subsection \<open>The countdown\<close>

text \<open>\<^verbatim>\<open>updateTimer\<close>. In the subtraction a \<^verbatim>\<open>null\<close> start time counts as 0.\<close>

definition updateTimer :: "int \<Rightarrow> gameState \<Rightarrow> gameState" where
  "updateTimer now s =
     (let elapsed = now - (case startTime s of None \<Rightarrow> 0 | Some t \<Rightarrow> t);
          remaining = GAME_DURATION - elapsed
      in if remaining \<le> 0 then
           endGame ''timeout'' ''Time's up! Hunted players survived.'' s
         else
           s\<lparr>timerText := formatTime remaining,
             timerClass :=
               (if remaining < 60000 then ''timer danger''
                else if remaining < 180000 then ''timer warning''
                else ''timer'')\<rparr>)"

section \<open>Notions used in the statements\<close>

text \<open>The checks of \<^verbatim>\<open>handleUpdateLocation\<close> that a body has to pass to be stored.\<close>

definition accepts :: "updateBody \<Rightarrow> bool" where
  "accepts d \<longleftrightarrow>
     missingField d = None \<and> \<not> invalidNumber (req_lat d) 90 \<and>
     \<not> invalidNumber (req_lon d) 180 \<and> the (req_role d) \<in> set [''hunter'', ''hunted'']"

text \<open>\<^verbatim>\<open>gameData.get(code)\<close> followed by \<^verbatim>\<open>get(pid)\<close>.\<close>

definition lookupPlayer :: "gameData \<Rightarrow> string \<Rightarrow> string \<Rightarrow> playerData option" where
  "lookupPlayer gd code pid = (case map_of gd code of None \<Rightarrow> None | Some g \<Rightarrow> map_of g pid)"

text \<open>
  What a \<^verbatim>\<open>Map\<close> guarantees and the handlers maintain: in a game every key occurs once,
  and the record under a key carries that key as its \<open>playerId\<close>.
\<close>

definition wf_game :: "game \<Rightarrow> bool" where
  "wf_game g \<longleftrightarrow> distinct (map fst g) \<and> (\<forall>(k, p) \<in> set g. playerId p = k)"

definition wf_store :: "gameData \<Rightarrow> bool" where
  "wf_store gd \<longleftrightarrow> (\<forall>(c, g) \<in> set gd. wf_game g)"

text \<open>
  The source identifier of a request: its connecting address, and \<open>unknown\<close> for a
  request that carries none.
\<close>

definition fromSource :: "string \<Rightarrow> request \<Rightarrow> bool" where
  "fromSource a r \<longleftrightarrow>
     (case connectingIp r of
        None \<Rightarrow> a = ''unknown''
      | Some h \<Rightarrow> if h = [] then a = ''unknown'' else a = h)"

text \<open>The requests that count against the limit of a source: all but the preflight.\<close>

definition counted :: "string \<Rightarrow> request \<Rightarrow> bool" where
  "counted a r \<longleftrightarrow> httpMethod r \<noteq> OPTIONS \<and> fromSource a r"

text \<open>
  The operation \<open>filterVisibleOpponents(snapshot, session, now)\<close> in the words of the
  specification: the entries that are not the session's own, whose role is the opposite
  one of the two, and whose age is at least 120000 ms, each with its age.
\<close>

definition filterVisibleOpponents_spec ::
  "playerData list \<Rightarrow> gameState \<Rightarrow> int \<Rightarrow> (playerData \<times> int) list" where
  "filterVisibleOpponents_spec snapshot session now =
     map (\<lambda>e. (e, now - timestamp e))
       (filter (\<lambda>e. Some (playerId e) \<noteq> gs_playerId session \<and>
                     ((playerRole session = Some ''hunter'' \<and> role e = ''hunted'') \<or>
                      (playerRole session = Some ''hunted'' \<and> role e = ''hunter'')) \<and>
                     now - timestamp e \<ge> 120000)
          snapshot)"

text \<open>The condition under which \<^const>\<open>checkCapture\<close> ends the game at an entry, and the
  visible opponents at which it does.\<close>

definition withinCapture :: "distanceFn \<Rightarrow> gameState \<Rightarrow> playerData \<Rightarrow> bool" where
  "withinCapture calc s e \<longleftrightarrow>
     playerRole s = Some ''hunter'' \<and>
     (case lastPosition s of
        None \<Rightarrow> False
      | Some own \<Rightarrow> calc (pos_lat own) (pos_lon own) (lat e) (lon e) \<le> CAPTURE_DISTANCE)"

definition captured ::
  "distanceFn \<Rightarrow> gameState \<Rightarrow> (playerData \<times> int) list \<Rightarrow> (playerData \<times> int) list" where
  "captured calc s shown = filter (\<lambda>(e, a). withinCapture calc s e) shown"

text \<open>The fields of the session that the loop reads, and the fields in which
  \<^const>\<open>endGame\<close> leaves the outcome.\<close>

definition sameSession :: "gameState \<Rightarrow> gameState \<Rightarrow> bool" where
  "sameSession s s' \<longleftrightarrow>
     gs_playerId s' = gs_playerId s \<and> playerRole s' = playerRole s \<and>
     lastPosition s' = lastPosition s \<and> hasMap s' = hasMap s \<and> gs_gameCode s' = gs_gameCode s"

definition outcome :: "gameState \<Rightarrow> bool \<times> string \<times> string" where
  "outcome s = (isActive s, endTitle s, endMessage s)"

subsection \<open>Concrete inputs\<close>

text \<open>The worker's maps and the \<^verbatim>\<open>gameState\<close> object as the scripts create them (the
  page showing nothing yet), a well-formed body and the two kinds of request.\<close>

definition worker0 :: worker where
  "worker0 = \<lparr>gameData = [], rateLimitMap = Map.empty\<rparr>"

definition gameState0 :: gameState where
  "gameState0 =
     \<lparr>gs_playerId = None, gs_playerName = None, playerRole = None, gs_gameCode = None,
      isActive = False, startTime = None, hasMap = False, otherMarkers = Map.empty,
      updateInterval = False, timerInterval = False, lastPosition = None, watchId = False,
      endTitle = [], endMessage = [], gameScreenActive = False, endScreenActive = False,
      playerCount = 0, timerText = [], timerClass = []\<rparr>"

definition exampleBody :: updateBody where
  "exampleBody =
     \<lparr>req_playerId = Some ''p1'', req_playerName = Some ''Ann'', req_role = Some ''hunted'',
      req_gameCode = Some ''abc'', req_lat = Some (Num 10), req_lon = Some (Num 20),
      req_accuracy = Some 5, req_timestamp = Some 1000\<rparr>"

definition updateRequest :: "updateBody \<Rightarrow> request" where
  "updateRequest d =
     \<lparr>httpMethod = POST, path = ''/updateLocation'', origin = None,
      connectingIp = Some ''192.0.2.1'', queryGameCode = None, jsonBody = Some d\<rparr>"

definition locationsRequest :: "string \<Rightarrow> request" where
  "locationsRequest q =
     \<lparr>httpMethod = GET, path = ''/locations'', origin = None,
      connectingIp = Some ''192.0.2.1'', queryGameCode = Some q, jsonBody = None\<rparr>"

text \<open>A hunter in a running session whose last accepted position is the origin, and an
  entry of a snapshot on the equator.\<close>

definition hunterState :: gameState where
  "hunterState =
     gameState0\<lparr>gs_playerId := Some ''h1'', gs_playerName := Some ''Hal'',
       playerRole := Some ''hunter'', gs_gameCode := Some ''ABC'', isActive := True,
       startTime := Some 0, hasMap := True, updateInterval := True, timerInterval := True,
       watchId := True, gameScreenActive := True,
       lastPosition := Some \<lparr>pos_lat = 0, pos_lon = 0, pos_accuracy = 10, pos_timestamp = 0\<rparr>\<rparr>"

definition examplePlayer :: "string \<Rightarrow> string \<Rightarrow> string \<Rightarrow> int \<Rightarrow> real \<Rightarrow> playerData" where
  "examplePlayer pid name r ts lonv =
     \<lparr>playerId = pid, playerName = name, role = r, gameCode = ''ABC'', lat = 0, lon = lonv,
      accuracy = 10, timestamp = ts\<rparr>"

section \<open>Facts about the relay\<close>

lemma status_jsonResponse [simp]: "status (jsonResponse b n orig) = n"
  by (simp add: jsonResponse_def)

lemma content_jsonResponse [simp]: "content (jsonResponse b n orig) = b"
  by (simp add: jsonResponse_def)

lemma handleUpdateLocation_status:
  "status (fst (handleUpdateLocation gd body orig)) = 200 \<longleftrightarrow> (\<exists>d. body = Some d \<and> accepts d)"
  "status (fst (handleUpdateLocation gd body orig)) = 200 \<or> status (fst (handleUpdateLocation gd body orig)) = 400"
  by (auto simp: handleUpdateLocation_def accepts_def Let_def split: option.splits)

lemma handleUpdateLocation_rejected:
  "\<not> accepts d \<Longrightarrow> handleUpdateLocation gd (Some d) orig = (fst (handleUpdateLocation gd (Some d) orig), gd)"
  "\<not> accepts d \<Longrightarrow> status (fst (handleUpdateLocation gd (Some d) orig)) = 400"
  by (auto simp: handleUpdateLocation_def accepts_def Let_def split: option.splits)

lemma map_of_getOrCreateGame:
  "map_of (getOrCreateGame gd code) code = Some (case map_of gd code of None \<Rightarrow> [] | Some g \<Rightarrow> g)"
  by (auto simp: getOrCreateGame_def update_conv' split: option.splits)

lemma handleUpdateLocation_accepted:
  assumes "accepts d"
  shows "snd (handleUpdateLocation gd (Some d) orig) =
           AList.update (sanitizedGameCode d)
             (AList.update (sanitizedPlayerId d) (newPlayerData d)
                (case map_of gd (sanitizedGameCode d) of None \<Rightarrow> [] | Some g \<Rightarrow> g))
             (getOrCreateGame gd (sanitizedGameCode d))"
  using assms
  by (simp add: handleUpdateLocation_def accepts_def Let_def map_of_getOrCreateGame)

lemma lookupPlayer_accepted:
  assumes "accepts d"
  shows "lookupPlayer (snd (handleUpdateLocation gd (Some d) orig)) (sanitizedGameCode d) (sanitizedPlayerId d)
           = Some (newPlayerData d)"
  by (simp add: handleUpdateLocation_accepted [OF assms] lookupPlayer_def update_conv')

lemma toUpperCase_abc: "toUpperCase ''abc'' = ''ABC''"
  by code_simp

lemma set_update_subset: "set (AList.update k v al) \<subseteq> insert (k, v) (set al)"
  by (induction al) auto

lemma wf_game_update:
  "wf_game g \<Longrightarrow> playerId p = k \<Longrightarrow> wf_game (AList.update k p g)"
  unfolding wf_game_def using set_update_subset [of k p g]
  by (auto simp: distinct_update)

lemma filter_update_one:
  "wf_game g \<Longrightarrow> playerId p = k \<Longrightarrow>
     filter (\<lambda>x. playerId x = k) (map snd (AList.update k p g)) = [p]"
proof (induction g)
  case Nil
  then show ?case by simp
next
  case (Cons a g)
  obtain k' p' where a: "a = (k', p')" by (cases a)
  from Cons.prems have wf: "wf_game g" and k': "playerId p' = k'" and notin: "k' \<notin> fst ` set g"
    and ids: "\<forall>(j, x) \<in> set g. playerId x = j"
    by (auto simp: wf_game_def a)
  show ?case
  proof (cases "k' = k")
    case True
    have "filter (\<lambda>x. playerId x = k) (map snd g) = []"
      using ids notin True by (force simp: filter_empty_conv)
    with True show ?thesis by (simp add: a Cons.prems)
  next
    case False
    with Cons.IH [OF wf Cons.prems(2)] k' show ?thesis by (simp add: a)
  qed
qed

lemma wf_game_map_of: "wf_store gd \<Longrightarrow> map_of gd c = Some g \<Longrightarrow> wf_game g"
  by (auto simp: wf_store_def dest!: map_of_SomeD)

lemma wf_store_update: "wf_store gd \<Longrightarrow> wf_game g \<Longrightarrow> wf_store (AList.update c g gd)"
  unfolding wf_store_def using set_update_subset [of c g gd] by auto

lemma wf_game_Nil: "wf_game []"
  by (simp add: wf_game_def)

lemma wf_store_handleUpdateLocation:
  assumes "wf_store gd"
  shows "wf_store (snd (handleUpdateLocation gd body orig))"
proof (cases "\<exists>d. body = Some d \<and> accepts d")
  case True
  then obtain d where d: "body = Some d" "accepts d" by blast
  let ?c = "sanitizedGameCode d"
  have g: "wf_game (case map_of gd ?c of None \<Rightarrow> [] | Some g \<Rightarrow> g)"
    using assms by (auto simp: wf_game_Nil split: option.splits dest: wf_game_map_of)
  have "wf_store (getOrCreateGame gd ?c)"
    using assms by (simp add: getOrCreateGame_def wf_store_update wf_game_Nil)
  then show ?thesis
    unfolding d handleUpdateLocation_accepted [OF d(2)]
    by (intro wf_store_update wf_game_update g) (simp_all add: newPlayerData_def)
next
  case False
  then show ?thesis using assms
    by (cases body) (auto simp: handleUpdateLocation_def accepts_def Let_def split: option.splits)
qed

lemma wf_game_cleanPlayers: "wf_game g \<Longrightarrow> wf_game (cleanPlayers c g)"
  by (auto simp: wf_game_def cleanPlayers_def distinct_map_filter)

lemma set_cleanGames:
  "set (cleanGames c gd) = {(k, cleanPlayers c g) | k g. (k, g) \<in> set gd \<and> cleanPlayers c g \<noteq> []}"
  by (induction c gd rule: cleanGames.induct) (auto simp: Let_def)

lemma wf_store_cleanGames: "wf_store gd \<Longrightarrow> wf_store (cleanGames c gd)"
  by (auto simp: wf_store_def set_cleanGames wf_game_cleanPlayers)

lemma gameData_handleRequest:
  "gameData (snd (handleRequest w now r)) = gameData w \<or>
   gameData (snd (handleRequest w now r)) = cleanGames (now - MAX_POSITION_AGE) (gameData w) \<or>
   gameData (snd (handleRequest w now r)) =
     snd (handleUpdateLocation (cleanGames (now - MAX_POSITION_AGE) (gameData w)) (jsonBody r) (origin r))"
  by (auto simp: handleRequest_def cleanOldData_def Let_def split: prod.splits)

lemma wf_store_handleRequest:
  "wf_store (gameData w) \<Longrightarrow> wf_store (gameData (snd (handleRequest w now r)))"
  using gameData_handleRequest [of w now r]
  by (auto simp: wf_store_cleanGames wf_store_handleUpdateLocation)

lemma out_of_range_not_accepts:
  assumes "(req_lat d = Some (Num x) \<and> (x < - 90 \<or> x > 90)) \<or>
           (req_lon d = Some (Num y) \<and> (y < - 180 \<or> y > 180))"
  shows "\<not> accepts d"
  using assms by (auto simp: accepts_def invalidNumber_def)

lemma keys_cleanGames: "fst ` set (cleanGames c gd) \<subseteq> fst ` set gd"
  by (force simp: set_cleanGames)

lemma map_of_cleanGames:
  "map_of gd c = Some g \<Longrightarrow> cleanPlayers cutoff g \<noteq> [] \<Longrightarrow>
     map_of (cleanGames cutoff gd) c = Some (cleanPlayers cutoff g)"
  by (induction cutoff gd rule: cleanGames.induct) (auto simp: Let_def split: if_splits)

lemma cleanGames_fresh:
  "(c, g) \<in> set (cleanGames cutoff gd) \<Longrightarrow> g \<noteq> [] \<and> (\<forall>(k, p) \<in> set g. \<not> timestamp p < cutoff)"
  by (auto simp: set_cleanGames cleanPlayers_def)

lemma handleRequest_429:
  "httpMethod r \<noteq> OPTIONS \<Longrightarrow>
     status (fst (handleRequest w now r)) = 429 \<longleftrightarrow>
       \<not> fst (checkRateLimit (rateLimitMap w) now (clientIp r))"
  using handleUpdateLocation_status(2) [of "cleanGames (now - MAX_POSITION_AGE) (gameData w)" "jsonBody r" "origin r"]
  by (auto simp: handleRequest_def cleanOldData_def handleGetLocations_def handleNotFound_def Let_def
           split: prod.splits option.splits)

lemma handleRequest_locations:
  assumes "httpMethod g = GET" "path g = ''/locations''" "status (fst (handleRequest w now g)) \<noteq> 429"
  shows "handleRequest w now g =
           (handleGetLocations (cleanGames (now - MAX_POSITION_AGE) (gameData w)) (queryGameCode g) (origin g),
            cleanOldData (w\<lparr>rateLimitMap := snd (checkRateLimit (rateLimitMap w) now (clientIp g))\<rparr>) now)"
  using assms
  by (auto simp: handleRequest_def cleanOldData_def Let_def split: prod.splits)

lemma handleRequest_update:
  assumes "httpMethod u = POST" "path u = ''/updateLocation''" "status (fst (handleRequest w now u)) = 200"
  shows "status (fst (handleUpdateLocation (cleanGames (now - MAX_POSITION_AGE) (gameData w)) (jsonBody u) (origin u))) = 200"
    and "gameData (snd (handleRequest w now u)) =
           snd (handleUpdateLocation (cleanGames (now - MAX_POSITION_AGE) (gameData w)) (jsonBody u) (origin u))"
  using assms
  by (auto simp: handleRequest_def cleanOldData_def Let_def split: prod.splits if_splits)

lemma rateLimitMap_handleRequest:
  "httpMethod r \<noteq> OPTIONS \<Longrightarrow>
     rateLimitMap (snd (handleRequest w now r)) =
       (if fst (checkRateLimit (rateLimitMap w) now (clientIp r))
        then cleanRateLimits now (snd (checkRateLimit (rateLimitMap w) now (clientIp r)))
        else snd (checkRateLimit (rateLimitMap w) now (clientIp r)))"
  by (auto simp: handleRequest_def cleanOldData_def Let_def split: prod.splits)

lemma handleRequest_throttled:
  assumes "httpMethod r \<noteq> OPTIONS" "status (fst (handleRequest w now r)) = 429"
  shows "snd (handleRequest w now r) = w"
proof -
  from assms have "\<not> fst (checkRateLimit (rateLimitMap w) now (clientIp r))"
    by (simp add: handleRequest_429)
  moreover from this have "snd (checkRateLimit (rateLimitMap w) now (clientIp r)) = rateLimitMap w"
    by (auto simp: checkRateLimit_def split: option.splits if_splits)
  ultimately show ?thesis
    using assms(1)
    by (cases "checkRateLimit (rateLimitMap w) now (clientIp r)") (simp add: handleRequest_def)
qed

lemma checkRateLimit_fresh:
  assumes "m ip = None \<or> (\<exists>l. m ip = Some l \<and> now > resetTime l)"
  shows "fst (checkRateLimit m now ip)"
    and "cleanRateLimits now (snd (checkRateLimit m now ip)) ip =
           Some \<lparr>count = 1, resetTime = now + 60000\<rparr>"
  using assms by (auto simp: checkRateLimit_def cleanRateLimits_def)

lemma serve_Cons:
  "serve w ((t, r) # rs) =
     (fst (handleRequest w t r) # fst (serve (snd (handleRequest w t r)) rs),
      snd (serve (snd (handleRequest w t r)) rs))"
  by (simp split: prod.splits)

text \<open>Every store that the worker reaches from its initial state is well formed.\<close>

lemma wf_store_serve:
  "wf_store (gameData w) \<Longrightarrow> wf_store (gameData (snd (serve w rs)))"
proof (induction rs arbitrary: w)
  case Nil
  then show ?case by simp
next
  case (Cons a rs)
  obtain t r where a: "a = (t, r)" by (cases a)
  from Cons.prems have "wf_store (gameData (snd (handleRequest w t r)))"
    by (rule wf_store_handleRequest)
  then have "wf_store (gameData (snd (serve (snd (handleRequest w t r)) rs)))"
    by (rule Cons.IH)
  then show ?case by (simp add: a serve_Cons del: serve.simps)
qed

lemma wf_store_reachable: "wf_store (gameData (snd (serve worker0 rs)))"
  by (rule wf_store_serve) (simp add: worker0_def wf_store_def)

lemma toUpperCase_Nil: "toUpperCase [] = []"
  by (simp add: toUpperCase_def)

lemma clientIp_fromSource: "clientIp r = a \<longleftrightarrow> fromSource a r"
  by (auto simp: clientIp_def fromSource_def split: option.splits)

lemma handleRequest_OPTIONS:
  "httpMethod r = OPTIONS \<Longrightarrow> handleRequest w t r = (handleOptions (origin r), w)"
  by (simp add: handleRequest_def)

text \<open>What one request does to the window of a source, while that window is open.\<close>

lemma entry_step:
  assumes "rateLimitMap w a = Some l" and "t \<le> resetTime l" and "count l \<le> RATE_LIMIT"
  shows "rateLimitMap (snd (handleRequest w t r)) a =
           Some (if counted a r then l\<lparr>count := min RATE_LIMIT (count l + 1)\<rparr> else l)"
proof (cases "httpMethod r = OPTIONS")
  case True
  then show ?thesis
    using assms(1) by (simp add: handleRequest_OPTIONS counted_def)
next
  case False
  show ?thesis
  proof (cases "clientIp r = a")
    case True
    then have c: "counted a r" using False by (simp add: counted_def clientIp_fromSource)
    show ?thesis
      using assms False True c
      by (auto simp: rateLimitMap_handleRequest checkRateLimit_def cleanRateLimits_def min_def)
  next
    case other: False
    then have c: "\<not> counted a r" by (simp add: counted_def clientIp_fromSource)
    have keep: "snd (checkRateLimit (rateLimitMap w) t (clientIp r)) a = Some l"
      using other assms(1) by (auto simp: checkRateLimit_def split: option.splits)
    show ?thesis
      using False c keep assms(2)
      by (simp add: rateLimitMap_handleRequest cleanRateLimits_def)
  qed
qed

lemma entry_serve:
  assumes "rateLimitMap w a = Some l" and "count l \<le> RATE_LIMIT"
    and "\<forall>(t, r) \<in> set rs. t \<le> resetTime l"
  shows "rateLimitMap (snd (serve w rs)) a =
           Some (l\<lparr>count := min RATE_LIMIT (count l + length (filter (\<lambda>(t, r). counted a r) rs))\<rparr>)"
  using assms
proof (induction rs arbitrary: w l)
  case Nil
  then show ?case by simp
next
  case (Cons x rs)
  obtain t r where x: "x = (t, r)" by (cases x)
  let ?l1 = "if counted a r then l\<lparr>count := min RATE_LIMIT (count l + 1)\<rparr> else l"
  from Cons.prems have t: "t \<le> resetTime l" by (simp add: x)
  have e1: "rateLimitMap (snd (handleRequest w t r)) a = Some ?l1"
    using Cons.prems(1) t Cons.prems(2) by (rule entry_step)
  have "rateLimitMap (snd (serve (snd (handleRequest w t r)) rs)) a =
          Some (?l1\<lparr>count := min RATE_LIMIT (count ?l1 + length (filter (\<lambda>(t, r). counted a r) rs))\<rparr>)"
    using Cons.prems(2,3) by (intro Cons.IH [OF e1]) (auto simp: x)
  then show ?case
    using Cons.prems(2) by (simp add: x serve_Cons min_def del: serve.simps)
qed

lemma verdict_in_window:
  assumes "rateLimitMap w a = Some l" and "counted a r"
  shows "status (fst (handleRequest w t r)) = 429 \<longleftrightarrow> t \<le> resetTime l \<and> RATE_LIMIT \<le> count l"
proof -
  from assms(2) have r: "httpMethod r \<noteq> OPTIONS" "clientIp r = a"
    by (simp_all add: counted_def clientIp_fromSource)
  show ?thesis
    using assms(1) by (auto simp: handleRequest_429 [OF r(1)] r(2) checkRateLimit_def)
qed

text \<open>The window that a first request opens, and the verdicts it gives.\<close>

lemma window_verdict:
  assumes fresh: "rateLimitMap w a = None \<or> (\<exists>l. rateLimitMap w a = Some l \<and> t0 > resetTime l)"
    and first: "counted a r0"
    and window: "\<forall>(t, r) \<in> set pre. t \<le> t0 + 60000"
    and r: "counted a r"
  shows "status (fst (handleRequest (snd (serve w ((t0, r0) # pre))) t r)) = 429 \<longleftrightarrow>
           t \<le> t0 + 60000 \<and> 59 \<le> length (filter (\<lambda>(t, r). counted a r) pre)"
proof -
  let ?w1 = "snd (handleRequest w t0 r0)"
  let ?l1 = "\<lparr>count = 1, resetTime = t0 + 60000\<rparr>"
  let ?n = "length (filter (\<lambda>(t, r). counted a r) pre)"
  from first have r0: "httpMethod r0 \<noteq> OPTIONS" "clientIp r0 = a"
    by (simp_all add: counted_def clientIp_fromSource)
  have ok0: "fst (checkRateLimit (rateLimitMap w) t0 a)"
    using checkRateLimit_fresh(1) [of "rateLimitMap w" a t0] fresh by simp
  have m1: "rateLimitMap ?w1 a = Some ?l1"
    using checkRateLimit_fresh(2) [of "rateLimitMap w" a t0] fresh ok0 r0
    by (simp add: rateLimitMap_handleRequest)
  have "rateLimitMap (snd (serve ?w1 pre)) a =
          Some (?l1\<lparr>count := min RATE_LIMIT (count ?l1 + ?n)\<rparr>)"
    using window by (intro entry_serve [OF m1]) (auto simp: RATE_LIMIT_def)
  then have "rateLimitMap (snd (serve w ((t0, r0) # pre))) a =
          Some \<lparr>count = min RATE_LIMIT (1 + ?n), resetTime = t0 + 60000\<rparr>"
    by (simp add: serve_Cons del: serve.simps)
  from verdict_in_window [OF this r, of t] show ?thesis
    by (auto simp: RATE_LIMIT_def min_def)
qed

lemma exampleSource:
  "counted ''192.0.2.1'' (locationsRequest q)"
  "\<not> counted ''192.0.2.1'' ((locationsRequest q)\<lparr>connectingIp := Some ''198.51.100.7''\<rparr>)"
  "\<not> counted ''192.0.2.1'' ((locationsRequest q)\<lparr>httpMethod := OPTIONS\<rparr>)"
  by (simp_all add: counted_def fromSource_def locationsRequest_def)

lemmas eval_simps = handleUpdateLocation_def missingField_def invalidNumber_def getOrCreateGame_def
      newPlayerData_def sanitizedGameCode_def sanitizedPlayerId_def sanitizedPlayerName_def numberOf_def orZero_def
      jsonResponse_def getCorsHeaders_def ALLOWED_ORIGINS_def toUpperCase_abc Let_def
      handleRequest_def checkRateLimit_def clientIp_def cleanOldData_def handleGetLocations_def
      exampleBody_def worker0_def updateRequest_def locationsRequest_def RATE_LIMIT_def MAX_POSITION_AGE_def
      cleanPlayers_def cleanRateLimits_def toUpperCase_Nil

section \<open>Facts about the client engine\<close>

lemma sameSession_refl: "sameSession s s"
  by (simp add: sameSession_def)

lemma sameSession_trans: "sameSession s s1 \<Longrightarrow> sameSession s1 s2 \<Longrightarrow> sameSession s s2"
  by (simp add: sameSession_def)

lemma sameSession_spec:
  "sameSession s s' \<Longrightarrow> filterVisibleOpponents_spec locs s' now = filterVisibleOpponents_spec locs s now"
  by (simp add: sameSession_def filterVisibleOpponents_spec_def)

lemma sameSession_withinCapture:
  "sameSession s s' \<Longrightarrow> withinCapture calc s' e = withinCapture calc s e"
  by (simp add: sameSession_def withinCapture_def)

lemma checkCapture_outcome:
  "outcome (checkCapture calc e s) =
     (if withinCapture calc s e then (False, ''Victory!'', ''You captured '' @ playerName e @ ''!'')
      else outcome s)"
  by (simp add: checkCapture_def withinCapture_def outcome_def endGame_def Let_def
           split: option.splits)

lemma checkCapture_sameSession: "sameSession s (checkCapture calc e s)"
  by (simp add: checkCapture_def sameSession_def endGame_def Let_def split: option.splits)

lemma placeMarker_Normal:
  assumes "placeMarker e a s = Normal s1"
  shows "sameSession s s1" and "outcome s1 = outcome s"
  using assms
  by (auto simp: placeMarker_def sameSession_def outcome_def split: if_splits option.splits)

lemma placeMarker_Throw: "placeMarker e a s = Throw s1 \<Longrightarrow> s1 = s"
  by (auto simp: placeMarker_def split: if_splits option.splits)

text \<open>One call of the callback that returns.\<close>

lemma forEachPlayer_step:
  assumes "forEachPlayer calc now e (s, ids, vis) = Normal (s', ids', vis')"
  shows "vis' = vis @ filterVisibleOpponents_spec [e] s now"
    and "sameSession s s'"
    and "outcome s' =
           (if filterVisibleOpponents_spec [e] s now \<noteq> [] \<and> withinCapture calc s e
            then (False, ''Victory!'', ''You captured '' @ playerName e @ ''!'')
            else outcome s)"
proof -
  let ?passes = "Some (playerId e) \<noteq> gs_playerId s \<and> isOpponent s e \<and>
                 \<not> now - timestamp e < POSITION_DELAY"
  have spec: "filterVisibleOpponents_spec [e] s now =
                (if ?passes then [(e, now - timestamp e)] else [])"
    by (auto simp: filterVisibleOpponents_spec_def isOpponent_def POSITION_DELAY_def)
  show "vis' = vis @ filterVisibleOpponents_spec [e] s now"
    using assms unfolding spec
    by (auto simp: forEachPlayer_def Let_def split: if_splits completion.splits)
  show "sameSession s s'"
  proof (cases ?passes)
    case False
    with assms have "s' = s"
      by (auto simp: forEachPlayer_def Let_def split: if_splits)
    then show ?thesis by (simp add: sameSession_refl)
  next
    case True
    with assms obtain s1 where p: "placeMarker e (now - timestamp e) s = Normal s1"
      and s': "s' = checkCapture calc e s1"
      by (auto simp: forEachPlayer_def Let_def split: if_splits completion.splits)
    show ?thesis
      unfolding s'
      by (rule sameSession_trans [OF placeMarker_Normal(1) [OF p] checkCapture_sameSession])
  qed
  show "outcome s' =
           (if filterVisibleOpponents_spec [e] s now \<noteq> [] \<and> withinCapture calc s e
            then (False, ''Victory!'', ''You captured '' @ playerName e @ ''!'')
            else outcome s)"
  proof (cases ?passes)
    case False
    with assms have "s' = s"
      by (auto simp: forEachPlayer_def Let_def split: if_splits)
    with False show ?thesis by (auto simp: spec)
  next
    case True
    with assms obtain s1 where p: "placeMarker e (now - timestamp e) s = Normal s1"
      and s': "s' = checkCapture calc e s1"
      by (auto simp: forEachPlayer_def Let_def split: if_splits completion.splits)
    have "withinCapture calc s1 e = withinCapture calc s e"
      by (rule sameSession_withinCapture [OF placeMarker_Normal(1) [OF p]])
    with True show ?thesis
      by (simp add: s' checkCapture_outcome placeMarker_Normal(2) [OF p] spec)
  qed
qed

lemma spec_Cons:
  "filterVisibleOpponents_spec (e # es) s now =
     filterVisibleOpponents_spec [e] s now @ filterVisibleOpponents_spec es s now"
  by (simp add: filterVisibleOpponents_spec_def)

lemma captured_single:
  "captured calc s (filterVisibleOpponents_spec [e] s now) =
     (if filterVisibleOpponents_spec [e] s now \<noteq> [] \<and> withinCapture calc s e
      then [(e, now - timestamp e)] else [])"
  by (simp add: captured_def filterVisibleOpponents_spec_def)

lemma sameSession_captured: "sameSession s s' \<Longrightarrow> captured calc s' xs = captured calc s xs"
  by (simp add: captured_def sameSession_withinCapture)

text \<open>A loop that returns has found the visible opponents of the whole snapshot, and has
  left the outcome of the last of them within reach.\<close>

lemma loop_result:
  assumes "forEach (forEachPlayer calc now) locs (s, ids, vis) = Normal (s', ids', vis')"
  shows "vis' = vis @ filterVisibleOpponents_spec locs s now \<and>
         sameSession s s' \<and>
         outcome s' =
           (if captured calc s (filterVisibleOpponents_spec locs s now) = [] then outcome s
            else (False, ''Victory!'',
                  ''You captured '' @
                  playerName (fst (last (captured calc s (filterVisibleOpponents_spec locs s now)))) @
                  ''!''))"
  using assms
proof (induction locs arbitrary: s ids vis)
  case Nil
  then show ?case
    by (simp add: filterVisibleOpponents_spec_def captured_def sameSession_refl)
next
  case (Cons e es)
  from Cons.prems obtain s1 ids1 vis1 where
    step: "forEachPlayer calc now e (s, ids, vis) = Normal (s1, ids1, vis1)"
    and rest: "forEach (forEachPlayer calc now) es (s1, ids1, vis1) = Normal (s', ids', vis')"
    by (auto split: completion.splits)
  note st = forEachPlayer_step [OF step]
  note ih = Cons.IH [OF rest]
  have eq: "filterVisibleOpponents_spec es s1 now = filterVisibleOpponents_spec es s now"
    using st(2) by (rule sameSession_spec)
  have cap: "captured calc s1 xs = captured calc s xs" for xs
    using st(2) by (rule sameSession_captured)
  have split: "captured calc s (filterVisibleOpponents_spec (e # es) s now) =
                 captured calc s (filterVisibleOpponents_spec [e] s now) @
                 captured calc s (filterVisibleOpponents_spec es s now)"
    by (simp add: spec_Cons [of e es] captured_def)
  have "vis' = vis @ filterVisibleOpponents_spec (e # es) s now"
    using ih st(1) by (simp add: eq spec_Cons [of e es])
  moreover have "sameSession s s'"
    using st(2) ih by (blast intro: sameSession_trans)
  moreover have "outcome s' =
           (if captured calc s (filterVisibleOpponents_spec (e # es) s now) = [] then outcome s
            else (False, ''Victory!'',
                  ''You captured '' @
                  playerName (fst (last (captured calc s (filterVisibleOpponents_spec (e # es) s now)))) @
                  ''!''))"
    using ih unfolding split st(3) cap eq captured_single by simp
  ultimately show ?case by blast
qed

lemma updateOtherPlayers_no_map:
  "\<not> hasMap s \<Longrightarrow> updateOtherPlayers calc now (Some locs) s = Normal (s, [])"
  by (simp add: updateOtherPlayers_def)

lemma updateOtherPlayers_result:
  assumes "hasMap s" and "is_Normal (updateOtherPlayers calc now (Some locs) s)"
  shows "snd (result (updateOtherPlayers calc now (Some locs) s)) =
           filterVisibleOpponents_spec locs s now"
    and "sameSession s (fst (result (updateOtherPlayers calc now (Some locs) s)))"
    and "outcome (fst (result (updateOtherPlayers calc now (Some locs) s))) =
           (if captured calc s (filterVisibleOpponents_spec locs s now) = [] then outcome s
            else (False, ''Victory!'',
                  ''You captured '' @
                  playerName (fst (last (captured calc s (filterVisibleOpponents_spec locs s now)))) @
                  ''!''))"
proof -
  from assms obtain s1 ids1 vis1 where
    loop: "forEach (forEachPlayer calc now) locs (s, {}, []) = Normal (s1, ids1, vis1)"
    by (auto simp: updateOtherPlayers_def split: completion.splits)
  note lr = loop_result [OF loop]
  have r: "result (updateOtherPlayers calc now (Some locs) s) =
             (s1\<lparr>otherMarkers := (\<lambda>pid. if pid \<in> ids1 then otherMarkers s1 pid else None),
                 playerCount := length (filter (\<lambda>p. Some (gameCode p) = gs_gameCode s1) locs)\<rparr>,
              vis1)"
    using assms(1) loop by (simp add: updateOtherPlayers_def)
  show "snd (result (updateOtherPlayers calc now (Some locs) s)) =
           filterVisibleOpponents_spec locs s now"
    using lr by (simp add: r)
  show "sameSession s (fst (result (updateOtherPlayers calc now (Some locs) s)))"
    using lr by (simp add: r sameSession_def)
  show "outcome (fst (result (updateOtherPlayers calc now (Some locs) s))) =
           (if captured calc s (filterVisibleOpponents_spec locs s now) = [] then outcome s
            else (False, ''Victory!'',
                  ''You captured '' @
                  playerName (fst (last (captured calc s (filterVisibleOpponents_spec locs s now)))) @
                  ''!''))"
    using lr by (simp add: r outcome_def)
qed

text \<open>Without a player id that is a property name of \<^verbatim>\<open>Object.prototype\<close> nothing raises.\<close>

lemma placeMarker_returns:
  "playerId e \<notin> set objectPrototypeKeys \<Longrightarrow> is_Normal (placeMarker e a s)"
  by (simp add: placeMarker_def objectPrototypeKeys_def split: option.splits)

lemma forEachPlayer_returns:
  assumes "playerId e \<notin> set objectPrototypeKeys"
  shows "is_Normal (forEachPlayer calc now e ls)"
proof -
  obtain s ids vis where ls: "ls = (s, ids, vis)" by (cases ls)
  obtain s1 where "placeMarker e (now - timestamp e) s = Normal s1"
    using placeMarker_returns [OF assms, of "now - timestamp e" s]
    by (cases "placeMarker e (now - timestamp e) s") auto
  then show ?thesis
    by (simp add: ls forEachPlayer_def Let_def)
qed

lemma forEach_returns:
  "\<forall>e \<in> set locs. playerId e \<notin> set objectPrototypeKeys \<Longrightarrow>
     is_Normal (forEach (forEachPlayer calc now) locs ls)"
proof (induction locs arbitrary: ls)
  case Nil
  then show ?case by simp
next
  case (Cons e es)
  then have "is_Normal (forEachPlayer calc now e ls)"
    by (simp add: forEachPlayer_returns)
  then obtain ls1 where "forEachPlayer calc now e ls = Normal ls1"
    by (cases "forEachPlayer calc now e ls") auto
  with Cons show ?case by simp
qed

lemma updateOtherPlayers_returns:
  "\<forall>e \<in> set locs. playerId e \<notin> set objectPrototypeKeys \<Longrightarrow>
     is_Normal (updateOtherPlayers calc now (Some locs) s)"
  using forEach_returns [of locs calc now "(s, {}, [])"]
  by (cases "forEach (forEachPlayer calc now) locs (s, {}, [])")
     (auto simp: updateOtherPlayers_def)

lemma calculateDistance_same [simp]: "calculateDistance 0 0 0 0 = 0"
  by (simp add: calculateDistance_def atan2_def)

lemma atan2_sin_cos:
  assumes "0 \<le> x" "x < pi / 2"
  shows "atan2 (sqrt (sin x * sin x)) (sqrt (1 - sin x * sin x)) = x"
proof -
  have s: "0 \<le> sin x" using assms by (intro sin_ge_zero) (auto intro: order_trans)
  have c: "0 < cos x" using assms by (intro cos_gt_zero_pi) auto
  have "1 - sin x * sin x = cos x * cos x"
    using sin_cos_squared_add [of x] by (simp add: power2_eq_square algebra_simps)
  then have "sqrt (1 - sin x * sin x) = cos x" using c by simp
  moreover have "sqrt (sin x * sin x) = sin x" using s by simp
  moreover have "arctan (sin x / cos x) = x"
    using arctan_tan [of x] assms by (simp add: tan_def)
  ultimately show ?thesis using c by (simp add: atan2_def)
qed

lemma calculateDistance_equator:
  assumes "0 \<le> l" "l < 180"
  shows "calculateDistance 0 0 0 l = 6371000 * (l * pi / 180)"
proof -
  define x where "x = l * pi / 180 / 2"
  have x: "0 \<le> x" "x < pi / 2"
    using assms pi_gt_zero by (auto simp: x_def field_simps)
  have "calculateDistance 0 0 0 l =
          6371000 * (2 * atan2 (sqrt (sin x * sin x)) (sqrt (1 - sin x * sin x)))"
    unfolding calculateDistance_def Let_def x_def by simp
  also have "\<dots> = 6371000 * (2 * x)"
    by (simp only: atan2_sin_cos [OF x])
  also have "\<dots> = 6371000 * (l * pi / 180)"
    by (simp add: x_def)
  finally show ?thesis .
qed

lemma calculateDistance_far: "\<not> calculateDistance 0 0 0 1 \<le> 50"
  using pi_ge_two by (simp add: calculateDistance_equator)

lemma hunterState_simps:
  "hasMap hunterState" "isActive hunterState" "playerRole hunterState = Some ''hunter''"
  "gs_playerId hunterState = Some ''h1''"
  "lastPosition hunterState = Some \<lparr>pos_lat = 0, pos_lon = 0, pos_accuracy = 10, pos_timestamp = 0\<rparr>"
  "otherMarkers hunterState = Map.empty"
  by (simp_all add: hunterState_def gameState0_def)

lemmas client_eval = updateOtherPlayers_def forEachPlayer_def isOpponent_def placeMarker_def
  checkCapture_def endGame_def hunterState_simps examplePlayer_def objectPrototypeKeys_def
  filterVisibleOpponents_spec_def POSITION_DELAY_def CAPTURE_DISTANCE_def Let_def
  calculateDistance_far

section \<open>Properties of the relay\<close>

text \<open>
  C1. The relay does not stamp a record with its time of receipt: it stores the
  \<open>timestamp\<close> of the request body. A request received at 5000000 that claims the
  instant 4880000, two minutes earlier, is accepted and stored with 4880000.
\<close>

theorem upsert_stores_client_timestamp:
  "status (fst (handleRequest worker0 5000000
                  (updateRequest (exampleBody\<lparr>req_timestamp := Some 4880000\<rparr>)))) = 200 \<and>
   gameData (snd (handleRequest worker0 5000000
                    (updateRequest (exampleBody\<lparr>req_timestamp := Some 4880000\<rparr>)))) =
     [(''ABC'', [(''p1'', \<lparr>playerId = ''p1'', playerName = ''Ann'', role = ''hunted'',
        gameCode = ''ABC'', lat = 10, lon = 20, accuracy = 5, timestamp = 4880000\<rparr>)])]"
  by (simp add: eval_simps)

text \<open>
  C6. A body whose latitude is a number outside [-90, 90], or whose longitude is a number
  outside [-180, 180], is answered with status 400 by \<^verbatim>\<open>handleUpdateLocation\<close>, which
  leaves \<^verbatim>\<open>gameData\<close> as it was; and a request carrying such a body adds no game code
  to \<^verbatim>\<open>gameData\<close>, whatever else the request does.
\<close>

theorem upsert_out_of_range_rejected:
  assumes "(req_lat d = Some (Num x) \<and> (x < - 90 \<or> x > 90)) \<or>
           (req_lon d = Some (Num y) \<and> (y < - 180 \<or> y > 180))"
  shows "status (fst (handleUpdateLocation gd (Some d) orig)) = 400 \<and>
         snd (handleUpdateLocation gd (Some d) orig) = gd \<and>
         (jsonBody r = Some d \<longrightarrow>
            fst ` set (gameData (snd (handleRequest w now r))) \<subseteq> fst ` set (gameData w))"
proof -
  have na: "\<not> accepts d" using assms by (rule out_of_range_not_accepts)
  have 1: "status (fst (handleUpdateLocation gd (Some d) orig)) = 400"
    using na by (rule handleUpdateLocation_rejected(2))
  have 2: "snd (handleUpdateLocation G (Some d) orig') = G" for G orig'
    using handleUpdateLocation_rejected(1) [OF na, of G orig'] by (metis snd_conv)
  have 3: "fst ` set (gameData (snd (handleRequest w now r))) \<subseteq> fst ` set (gameData w)"
    if "jsonBody r = Some d"
    using gameData_handleRequest [of w now r] keys_cleanGames [of "now - MAX_POSITION_AGE" "gameData w"]
    unfolding that 2 by (elim disjE) simp_all
  from 1 2 3 show ?thesis by blast
qed

theorem upsert_out_of_range_rejected_witness:
  "req_lat (exampleBody\<lparr>req_lat := Some (Num 91)\<rparr>) = Some (Num 91) \<and> (91::real) > 90 \<and>
   status (fst (handleUpdateLocation [] (Some (exampleBody\<lparr>req_lat := Some (Num 91)\<rparr>)) None)) = 400 \<and>
   snd (handleUpdateLocation [] (Some (exampleBody\<lparr>req_lat := Some (Num 91)\<rparr>)) None) = [] \<and>
   gameData (snd (handleRequest worker0 5000 (updateRequest (exampleBody\<lparr>req_lat := Some (Num 91)\<rparr>)))) = []"
  using upsert_out_of_range_rejected [of "exampleBody\<lparr>req_lat := Some (Num 91)\<rparr>" 91 0 "[]" None
          "updateRequest (exampleBody\<lparr>req_lat := Some (Num 91)\<rparr>)" worker0 5000]
  by (simp add: exampleBody_def updateRequest_def worker0_def)

text \<open>
  C7, as stated, fails for the empty game code: two updates that carry it are both
  accepted and stored under it, and the listing of that code is refused as a missing
  parameter.
\<close>

theorem empty_code_never_listed:
  "status (fst (handleUpdateLocation [] (Some (exampleBody\<lparr>req_gameCode := Some []\<rparr>)) None)) = 200 \<and>
   status (fst (handleUpdateLocation
                  (snd (handleUpdateLocation [] (Some (exampleBody\<lparr>req_gameCode := Some []\<rparr>)) None))
                  (Some (exampleBody\<lparr>req_gameCode := Some [], req_lat := Some (Num 11)\<rparr>)) None)) = 200 \<and>
   snd (handleUpdateLocation
          (snd (handleUpdateLocation [] (Some (exampleBody\<lparr>req_gameCode := Some []\<rparr>)) None))
          (Some (exampleBody\<lparr>req_gameCode := Some [], req_lat := Some (Num 11)\<rparr>)) None) =
     [([], [(''p1'', \<lparr>playerId = ''p1'', playerName = ''Ann'', role = ''hunted'',
        gameCode = [], lat = 11, lon = 20, accuracy = 5, timestamp = 1000\<rparr>)])] \<and>
   handleGetLocations
     [([], [(''p1'', \<lparr>playerId = ''p1'', playerName = ''Ann'', role = ''hunted'',
        gameCode = [], lat = 11, lon = 20, accuracy = 5, timestamp = 1000\<rparr>)])]
     (Some []) None =
     \<lparr>status = 400, allowOrigin = ''https://philoutram.github.io'',
      content = ErrorBody ''Missing gameCode parameter''\<rparr>"
  by (simp add: eval_simps toUpperCase_Nil)

text \<open>
  C7, amended. After two accepted updates for the same sanitised game code, not empty, and
  the same player id, the listing of that game holds exactly one record with that player
  id, and it is the record built from the second body alone.
\<close>

theorem second_upsert_overwrites:
  assumes wf: "wf_store gd"
    and a1: "status (fst (handleUpdateLocation gd (Some d1) o1)) = 200"
    and gd1: "gd1 = snd (handleUpdateLocation gd (Some d1) o1)"
    and a2: "status (fst (handleUpdateLocation gd1 (Some d2) o2)) = 200"
    and gd2: "gd2 = snd (handleUpdateLocation gd1 (Some d2) o2)"
    and same: "sanitizedGameCode d2 = sanitizedGameCode d1" "sanitizedPlayerId d2 = sanitizedPlayerId d1"
    and q: "q \<noteq> []" "take 10 (toUpperCase q) = sanitizedGameCode d1"
  shows "\<exists>locs. handleGetLocations gd2 (Some q) o3 =
                  jsonResponse (LocationsBody locs (length locs)) 200 o3 \<and>
                filter (\<lambda>p. playerId p = sanitizedPlayerId d1) locs = [newPlayerData d2]"
proof -
  from a1 have acc1: "accepts d1" by (simp add: handleUpdateLocation_status)
  from a2 have acc2: "accepts d2" by (simp add: handleUpdateLocation_status)
  have wf1: "wf_store gd1" unfolding gd1 using wf by (rule wf_store_handleUpdateLocation)
  let ?c = "sanitizedGameCode d1" and ?k = "sanitizedPlayerId d1"
  define g where "g = (case map_of gd1 ?c of None \<Rightarrow> [] | Some g \<Rightarrow> g)"
  have wfg: "wf_game g"
    using wf1 by (auto simp: g_def wf_game_Nil split: option.splits dest: wf_game_map_of)
  have "map_of gd2 ?c = Some (AList.update ?k (newPlayerData d2) g)"
    unfolding gd2 handleUpdateLocation_accepted [OF acc2] same g_def
    by (simp add: update_conv')
  moreover have "filter (\<lambda>p. playerId p = ?k) (map snd (AList.update ?k (newPlayerData d2) g))
                   = [newPlayerData d2]"
    using wfg by (rule filter_update_one) (simp add: newPlayerData_def same)
  ultimately show ?thesis
    using q
    by (intro exI [where x = "map snd (AList.update ?k (newPlayerData d2) g)"])
       (simp add: handleGetLocations_def Let_def)
qed

theorem second_upsert_overwrites_witness:
  "handleGetLocations
     (snd (handleUpdateLocation (snd (handleUpdateLocation [] (Some exampleBody) None))
        (Some (exampleBody\<lparr>req_playerName := Some ''Bob'', req_lat := Some (Num 11), req_timestamp := Some 2000\<rparr>)) None))
     (Some ''abc'') None
   = jsonResponse (LocationsBody [\<lparr>playerId = ''p1'', playerName = ''Bob'', role = ''hunted'',
        gameCode = ''ABC'', lat = 11, lon = 20, accuracy = 5, timestamp = 2000\<rparr>] 1) 200 None"
  using second_upsert_overwrites [of "[]" exampleBody None _
     "exampleBody\<lparr>req_playerName := Some ''Bob'', req_lat := Some (Num 11), req_timestamp := Some 2000\<rparr>" None _ "''abc''" None,
     OF _ _ refl _ refl]
  by (simp add: eval_simps wf_store_def)

text \<open>
  C8, as stated, fails for the preflight: after 60 requests of a source in one window a
  further request is answered with status 429, and an \<^verbatim>\<open>OPTIONS\<close> request of the same
  source at the same time with status 204.
\<close>

theorem preflight_not_limited:
  "status (fst (handleRequest
             (snd (serve worker0 ((0, locationsRequest ''abc'') #
                                  replicate 59 (1000, locationsRequest ''abc''))))
             2000 (locationsRequest ''abc''))) = 429 \<and>
   status (fst (handleRequest
             (snd (serve worker0 ((0, locationsRequest ''abc'') #
                                  replicate 59 (1000, locationsRequest ''abc''))))
             2000 ((locationsRequest ''abc'')\<lparr>httpMethod := OPTIONS\<rparr>))) = 204 \<and>
   connectingIp ((locationsRequest ''abc'')\<lparr>httpMethod := OPTIONS\<rparr>) =
     connectingIp (locationsRequest ''abc'')"
proof -
  have "status (fst (handleRequest
             (snd (serve worker0 ((0, locationsRequest ''abc'') #
                                  replicate 59 (1000, locationsRequest ''abc''))))
             2000 (locationsRequest ''abc''))) = 429"
    using window_verdict [of worker0 "''192.0.2.1''" 0 "locationsRequest ''abc''"
            "replicate 59 (1000, locationsRequest ''abc'')" "locationsRequest ''abc''" 2000]
    by (simp add: exampleSource worker0_def del: serve.simps)
  moreover have "status (fst (handleRequest w 2000 ((locationsRequest ''abc'')\<lparr>httpMethod := OPTIONS\<rparr>))) = 204"
    for w
    by (simp add: handleRequest_OPTIONS handleOptions_def)
  ultimately show ?thesis by simp
qed

text \<open>
  C8, amended. Count the requests of a source other than preflights. The first such
  request of a source without an open window opens one of 60 seconds. Whatever requests,
  of this and of other sources, the worker has served within that window, a further
  request of the source within it is answered with status 429 exactly if the source has
  made 60 requests in the window already; requests of other sources do not count. A
  request answered with 429 leaves the worker's state, the position store included, as it
  was, and a request after the reset time is let through.
\<close>

theorem rate_limit_window:
  assumes fresh: "rateLimitMap w a = None \<or> (\<exists>l. rateLimitMap w a = Some l \<and> t0 > resetTime l)"
    and first: "httpMethod r0 \<noteq> OPTIONS" "fromSource a r0"
    and window: "\<forall>(t, r) \<in> set pre. t \<le> t0 + 60000"
    and w': "w' = snd (serve w ((t0, r0) # pre))"
    and n: "n = length (filter (\<lambda>(t, r). httpMethod r \<noteq> OPTIONS \<and> fromSource a r) pre)"
    and r: "httpMethod r \<noteq> OPTIONS" "fromSource a r"
  shows "(t \<le> t0 + 60000 \<longrightarrow> (status (fst (handleRequest w' t r)) = 429 \<longleftrightarrow> 59 \<le> n)) \<and>
         (status (fst (handleRequest w' t r)) = 429 \<longrightarrow> snd (handleRequest w' t r) = w') \<and>
         (t > t0 + 60000 \<longrightarrow> status (fst (handleRequest w' t r)) \<noteq> 429) \<and>
         RATE_LIMIT = 60"
proof -
  have n': "n = length (filter (\<lambda>(t, r). counted a r) pre)"
    by (simp add: n counted_def)
  have "status (fst (handleRequest w' t r)) = 429 \<longleftrightarrow> t \<le> t0 + 60000 \<and> 59 \<le> n"
    unfolding w' n'
    by (rule window_verdict [OF fresh _ window]) (simp_all add: counted_def first r)
  moreover have "status (fst (handleRequest w' t r)) = 429 \<longrightarrow> snd (handleRequest w' t r) = w'"
    using r(1) by (simp add: handleRequest_throttled)
  ultimately show ?thesis by (auto simp: RATE_LIMIT_def)
qed

theorem rate_limit_window_witness:
  "status (fst (handleRequest
             (snd (serve worker0 ((0, locationsRequest ''abc'') #
                     replicate 59 (1000, locationsRequest ''abc''))))
             60000 (locationsRequest ''abc''))) = 429 \<and>
   status (fst (handleRequest
             (snd (serve worker0 ((0, locationsRequest ''abc'') #
                     replicate 59 (1000, locationsRequest ''abc''))))
             60001 (locationsRequest ''abc''))) \<noteq> 429 \<and>
   status (fst (handleRequest
             (snd (serve worker0 ((0, locationsRequest ''abc'') #
                     replicate 58 (1000, locationsRequest ''abc'') @
                     replicate 70 (1000, (locationsRequest ''abc'')\<lparr>connectingIp := Some ''198.51.100.7''\<rparr>))))
             60000 (locationsRequest ''abc''))) \<noteq> 429"
  using rate_limit_window [of worker0 "''192.0.2.1''" 0 "locationsRequest ''abc''"
          "replicate 59 (1000, locationsRequest ''abc'')" _ _ "locationsRequest ''abc''" 60000,
          OF _ _ _ _ refl refl]
        rate_limit_window [of worker0 "''192.0.2.1''" 0 "locationsRequest ''abc''"
          "replicate 59 (1000, locationsRequest ''abc'')" _ _ "locationsRequest ''abc''" 60001,
          OF _ _ _ _ refl refl]
        rate_limit_window [of worker0 "''192.0.2.1''" 0 "locationsRequest ''abc''"
          "replicate 58 (1000, locationsRequest ''abc'') @
           replicate 70 (1000, (locationsRequest ''abc'')\<lparr>connectingIp := Some ''198.51.100.7''\<rparr>)"
          _ _ "locationsRequest ''abc''" 60000,
          OF _ _ _ _ refl refl]
  by (simp add: worker0_def locationsRequest_def fromSource_def del: serve.simps)

text \<open>
  C9, as stated, fails for the empty game code: a record stored under it at \<open>T\<close> is not
  returned at \<open>T\<close> + 14 minutes, the listing of that code being refused as a missing
  parameter.
\<close>

theorem empty_code_not_returned:
  "status (fst (handleRequest worker0 1000000
     (updateRequest (exampleBody\<lparr>req_gameCode := Some [], req_timestamp := Some 1000000\<rparr>)))) = 200 \<and>
   gameData (snd (handleRequest worker0 1000000
     (updateRequest (exampleBody\<lparr>req_gameCode := Some [], req_timestamp := Some 1000000\<rparr>)))) =
     [([], [(''p1'', \<lparr>playerId = ''p1'', playerName = ''Ann'', role = ''hunted'',
        gameCode = [], lat = 10, lon = 20, accuracy = 5, timestamp = 1000000\<rparr>)])] \<and>
   fst (handleRequest
     (snd (handleRequest worker0 1000000
       (updateRequest (exampleBody\<lparr>req_gameCode := Some [], req_timestamp := Some 1000000\<rparr>))))
     (1000000 + 14 * 60 * 1000) (locationsRequest [])) =
     \<lparr>status = 400, allowOrigin = ''https://philoutram.github.io'',
      content = ErrorBody ''Missing gameCode parameter''\<rparr>"
  by (simp add: eval_simps toUpperCase_Nil)

text \<open>
  C9, amended. A record with a game code that is not empty, stored by a request received
  at \<open>T\<close> with timestamp \<open>T\<close>, is in the listing that follows the sweep at \<open>T\<close> + 14
  minutes and not in the one at \<open>T\<close> + 16 minutes; it is listed exactly while its age is
  at most \<^verbatim>\<open>MAX_POSITION_AGE\<close>, 15 minutes. No listing holds a record older than
  that, and the sweep leaves neither such a record nor a game without records. A listing
  request is answered by that listing unless its source is throttled.
\<close>

theorem retention_window:
  assumes u: "httpMethod u = POST" "path u = ''/updateLocation''" "jsonBody u = Some d"
             "req_timestamp d = Some T"
    and ok: "status (fst (handleRequest w T u)) = 200"
    and w1: "w1 = snd (handleRequest w T u)"
    and q: "q \<noteq> []" "take 10 (toUpperCase q) = sanitizedGameCode d"
  shows "(\<exists>locs. handleGetLocations (gameData (cleanOldData w1 now)) (Some q) orig =
                   jsonResponse (LocationsBody locs (length locs)) 200 orig \<and>
            (now = T + 14 * 60 * 1000 \<longrightarrow> newPlayerData d \<in> set locs) \<and>
            (now = T + 16 * 60 * 1000 \<longrightarrow> newPlayerData d \<notin> set locs) \<and>
            (newPlayerData d \<in> set locs \<longleftrightarrow> now - T \<le> MAX_POSITION_AGE) \<and>
            (\<forall>p \<in> set locs. now - timestamp p \<le> MAX_POSITION_AGE)) \<and>
         (httpMethod g = GET \<and> path g = ''/locations'' \<longrightarrow>
            fst (handleRequest w1 now g) =
              (if fst (checkRateLimit (rateLimitMap w1) now (clientIp g))
               then handleGetLocations (gameData (cleanOldData w1 now)) (queryGameCode g) (origin g)
               else jsonResponse (ErrorBody ''Rate limit exceeded. Please try again later.'') 429
                      (origin g))) \<and>
         (\<forall>(c, ps) \<in> set (gameData (cleanOldData w' t)).
            ps \<noteq> [] \<and> (\<forall>(k, p) \<in> set ps. t - timestamp p \<le> MAX_POSITION_AGE)) \<and>
         MAX_POSITION_AGE = 15 * 60 * 1000"
proof -
  let ?c = "sanitizedGameCode d" and ?k = "sanitizedPlayerId d" and ?cut = "now - MAX_POSITION_AGE"
  let ?gd0 = "cleanGames (T - MAX_POSITION_AGE) (gameData w)"
  have acc: "accepts d"
    using handleRequest_update(1) [OF u(1,2) ok] by (simp add: u(3) handleUpdateLocation_status)
  have gd1: "gameData w1 = snd (handleUpdateLocation ?gd0 (Some d) (origin u))"
    using handleRequest_update(2) [OF u(1,2) ok] by (simp add: w1 u(3))
  define g0 where "g0 = AList.update ?k (newPlayerData d)
                          (case map_of ?gd0 ?c of None \<Rightarrow> [] | Some x \<Rightarrow> x)"
  have m1: "map_of (gameData w1) ?c = Some g0"
    unfolding gd1 handleUpdateLocation_accepted [OF acc] g0_def by (simp add: update_conv')
  have in0: "(?k, newPlayerData d) \<in> set g0"
    by (rule map_of_SomeD) (simp add: g0_def update_conv')
  have ts: "timestamp (newPlayerData d) = T" by (simp add: newPlayerData_def u(4))
  have swept: "gameData (cleanOldData w1 now) = cleanGames ?cut (gameData w1)"
    by (simp add: cleanOldData_def)
  define locs where "locs = (case map_of (cleanGames ?cut (gameData w1)) ?c of
                               None \<Rightarrow> [] | Some x \<Rightarrow> map snd x)"
  have c: "handleGetLocations (gameData (cleanOldData w1 now)) (Some q) orig =
             jsonResponse (LocationsBody locs (length locs)) 200 orig"
    unfolding swept locs_def using q
    by (simp add: handleGetLocations_def Let_def split: option.splits)
  have fresh: "\<forall>p \<in> set locs. now - timestamp p \<le> MAX_POSITION_AGE"
  proof
    fix p assume "p \<in> set locs"
    then obtain x k where "map_of (cleanGames ?cut (gameData w1)) ?c = Some x" "(k, p) \<in> set x"
      by (cases "map_of (cleanGames ?cut (gameData w1)) ?c") (auto simp: locs_def)
    then have "\<not> timestamp p < ?cut"
      using cleanGames_fresh [of ?c x ?cut "gameData w1"] by (auto dest!: map_of_SomeD)
    then show "now - timestamp p \<le> MAX_POSITION_AGE" by simp
  qed
  have present: "newPlayerData d \<in> set locs" if "now - T \<le> MAX_POSITION_AGE"
  proof -
    have "(?k, newPlayerData d) \<in> set (cleanPlayers ?cut g0)"
      using in0 that by (auto simp: cleanPlayers_def ts)
    moreover from this have "cleanPlayers ?cut g0 \<noteq> []" by auto
    then have "map_of (cleanGames ?cut (gameData w1)) ?c = Some (cleanPlayers ?cut g0)"
      using m1 by (simp add: map_of_cleanGames)
    ultimately show ?thesis by (force simp: locs_def)
  qed
  have iff: "newPlayerData d \<in> set locs \<longleftrightarrow> now - T \<le> MAX_POSITION_AGE"
    using present fresh ts by auto
  have sweep: "\<forall>(c, ps) \<in> set (gameData (cleanOldData w' t)).
                 ps \<noteq> [] \<and> (\<forall>(k, p) \<in> set ps. t - timestamp p \<le> MAX_POSITION_AGE)"
    using cleanGames_fresh [of _ _ "t - MAX_POSITION_AGE" "gameData w'"]
    by (fastforce simp: cleanOldData_def Let_def)
  have request: "httpMethod g = GET \<and> path g = ''/locations'' \<longrightarrow>
            fst (handleRequest w1 now g) =
              (if fst (checkRateLimit (rateLimitMap w1) now (clientIp g))
               then handleGetLocations (gameData (cleanOldData w1 now)) (queryGameCode g) (origin g)
               else jsonResponse (ErrorBody ''Rate limit exceeded. Please try again later.'') 429
                      (origin g))"
    by (auto simp: handleRequest_def cleanOldData_def Let_def split: prod.splits)
  have inst: "(now = T + 14 * 60 * 1000 \<longrightarrow> newPlayerData d \<in> set locs) \<and>
        (now = T + 16 * 60 * 1000 \<longrightarrow> newPlayerData d \<notin> set locs)"
    unfolding iff by (simp add: MAX_POSITION_AGE_def)
  have ex: "\<exists>locs. handleGetLocations (gameData (cleanOldData w1 now)) (Some q) orig =
                   jsonResponse (LocationsBody locs (length locs)) 200 orig \<and>
            (now = T + 14 * 60 * 1000 \<longrightarrow> newPlayerData d \<in> set locs) \<and>
            (now = T + 16 * 60 * 1000 \<longrightarrow> newPlayerData d \<notin> set locs) \<and>
            (newPlayerData d \<in> set locs \<longleftrightarrow> now - T \<le> MAX_POSITION_AGE) \<and>
            (\<forall>p \<in> set locs. now - timestamp p \<le> MAX_POSITION_AGE)"
    using c inst iff fresh by blast
  from ex request sweep show ?thesis by (simp add: MAX_POSITION_AGE_def)
qed

theorem retention_window_witness:
  "content (fst (handleRequest
      (snd (handleRequest worker0 1000000 (updateRequest (exampleBody\<lparr>req_timestamp := Some 1000000\<rparr>))))
      (1000000 + 14 * 60 * 1000) (locationsRequest ''abc'')))
     = LocationsBody [\<lparr>playerId = ''p1'', playerName = ''Ann'', role = ''hunted'',
        gameCode = ''ABC'', lat = 10, lon = 20, accuracy = 5, timestamp = 1000000\<rparr>] 1 \<and>
   content (fst (handleRequest
      (snd (handleRequest worker0 1000000 (updateRequest (exampleBody\<lparr>req_timestamp := Some 1000000\<rparr>))))
      (1000000 + 16 * 60 * 1000) (locationsRequest ''abc'')))
     = LocationsBody [] 0"
  using retention_window [of "updateRequest (exampleBody\<lparr>req_timestamp := Some 1000000\<rparr>)"
          "exampleBody\<lparr>req_timestamp := Some 1000000\<rparr>" 1000000 worker0 _ "''abc''"
          "1000000 + 14 * 60 * 1000" None "locationsRequest ''abc''" worker0 0, OF _ _ _ _ _ refl]
        retention_window [of "updateRequest (exampleBody\<lparr>req_timestamp := Some 1000000\<rparr>)"
          "exampleBody\<lparr>req_timestamp := Some 1000000\<rparr>" 1000000 worker0 _ "''abc''"
          "1000000 + 16 * 60 * 1000" None "locationsRequest ''abc''" worker0 0, OF _ _ _ _ _ refl]
  by (simp add: eval_simps)

text \<open>
  C10, as stated, fails: a body with accuracy -5 is accepted and stored with accuracy -5.
\<close>

theorem upsert_negative_accuracy_stored:
  "handleUpdateLocation [] (Some (exampleBody\<lparr>req_accuracy := Some (- 5)\<rparr>)) None =
     (\<lparr>status = 200, allowOrigin = ''https://philoutram.github.io'', content = UpdateOk 1\<rparr>,
      [(''ABC'', [(''p1'', \<lparr>playerId = ''p1'', playerName = ''Ann'', role = ''hunted'',
        gameCode = ''ABC'', lat = 10, lon = 20, accuracy = - 5, timestamp = 1000\<rparr>)])])"
  by (simp add: eval_simps)

text \<open>
  C10, amended. The record stored for an accepted body carries the accuracy of the body,
  and 0 if the body gives none; it is non-negative exactly when the body gives no accuracy
  or a non-negative one.
\<close>

theorem upsert_stores_request_accuracy:
  assumes "status (fst (handleUpdateLocation gd (Some d) orig)) = 200"
  shows "\<exists>p. lookupPlayer (snd (handleUpdateLocation gd (Some d) orig))
                (sanitizedGameCode d) (sanitizedPlayerId d) = Some p \<and>
              accuracy p = (case req_accuracy d of None \<Rightarrow> 0 | Some a \<Rightarrow> a) \<and>
              (accuracy p \<ge> 0 \<longleftrightarrow> (case req_accuracy d of None \<Rightarrow> True | Some a \<Rightarrow> a \<ge> 0))"
proof -
  from assms have "accepts d" by (simp add: handleUpdateLocation_status)
  then have "lookupPlayer (snd (handleUpdateLocation gd (Some d) orig))
                (sanitizedGameCode d) (sanitizedPlayerId d) = Some (newPlayerData d)"
    by (rule lookupPlayer_accepted)
  moreover have "accuracy (newPlayerData d) = (case req_accuracy d of None \<Rightarrow> 0 | Some a \<Rightarrow> a)"
    by (simp add: newPlayerData_def orZero_def split: option.splits)
  ultimately show ?thesis by (auto split: option.splits)
qed

theorem upsert_stores_request_accuracy_witness:
  "status (fst (handleUpdateLocation [] (Some (exampleBody\<lparr>req_accuracy := None\<rparr>)) None)) = 200 \<and>
   lookupPlayer (snd (handleUpdateLocation [] (Some (exampleBody\<lparr>req_accuracy := None\<rparr>)) None)) ''ABC'' ''p1''
     = Some \<lparr>playerId = ''p1'', playerName = ''Ann'', role = ''hunted'',
        gameCode = ''ABC'', lat = 10, lon = 20, accuracy = 0, timestamp = 1000\<rparr>"
  using upsert_stores_request_accuracy [of "[]" "exampleBody\<lparr>req_accuracy := None\<rparr>" None]
  by (simp add: eval_simps lookupPlayer_def)

section \<open>Properties of the client engine\<close>

text \<open>
  C2. A visible opponent whose player id is \<open>constructor\<close> makes the pass over the
  snapshot raise at its marker: of the two entries that the specification's
  \<open>filterVisibleOpponents\<close> returns, the pass reaches only the first, and the
  opponent after it is never looked at.
\<close>

theorem visible_opponent_lost_after_raise:
  "filterVisibleOpponents_spec
     [examplePlayer ''constructor'' ''Eve'' ''hunted'' 0 1,
      examplePlayer ''k1'' ''Kim'' ''hunted'' 0 1] hunterState 200000 =
     [(examplePlayer ''constructor'' ''Eve'' ''hunted'' 0 1, 200000),
      (examplePlayer ''k1'' ''Kim'' ''hunted'' 0 1, 200000)] \<and>
   updateOtherPlayers calculateDistance 200000
     (Some [examplePlayer ''constructor'' ''Eve'' ''hunted'' 0 1,
            examplePlayer ''k1'' ''Kim'' ''hunted'' 0 1]) hunterState =
     Throw (hunterState, [(examplePlayer ''constructor'' ''Eve'' ''hunted'' 0 1, 200000)])"
  by (simp add: client_eval)

text \<open>
  C3. A hunter stands at the position of a visible opponent whose player id is
  \<open>constructor\<close>. The pass raises at the opponent's marker, before the check for
  capture: the state is left as it was and the session stays active.
\<close>

theorem capture_missed_after_raise:
  "playerRole hunterState = Some ''hunter'' \<and> isActive hunterState \<and>
   lastPosition hunterState =
     Some \<lparr>pos_lat = 0, pos_lon = 0, pos_accuracy = 10, pos_timestamp = 0\<rparr> \<and>
   filterVisibleOpponents_spec
     [examplePlayer ''constructor'' ''Eve'' ''hunted'' 0 0] hunterState 200000 =
     [(examplePlayer ''constructor'' ''Eve'' ''hunted'' 0 0, 200000)] \<and>
   calculateDistance 0 0 (lat (examplePlayer ''constructor'' ''Eve'' ''hunted'' 0 0))
     (lon (examplePlayer ''constructor'' ''Eve'' ''hunted'' 0 0)) \<le> CAPTURE_DISTANCE \<and>
   updateOtherPlayers calculateDistance 200000
     (Some [examplePlayer ''constructor'' ''Eve'' ''hunted'' 0 0]) hunterState =
     Throw (hunterState, [(examplePlayer ''constructor'' ''Eve'' ''hunted'' 0 0, 200000)])"
  by (simp add: client_eval)

text \<open>
  C4, as stated, fails: with two visible opponents at the hunter's own position, the
  end message names the second, not the first.
\<close>

theorem capture_names_first_counterexample:
  "is_Normal (updateOtherPlayers calculateDistance 200000
          (Some [examplePlayer ''k1'' ''Kim'' ''hunted'' 0 0, examplePlayer ''k2'' ''Kai'' ''hunted'' 0 0])
          hunterState) \<and>
   snd (result (updateOtherPlayers calculateDistance 200000
          (Some [examplePlayer ''k1'' ''Kim'' ''hunted'' 0 0, examplePlayer ''k2'' ''Kai'' ''hunted'' 0 0])
          hunterState))
     = [(examplePlayer ''k1'' ''Kim'' ''hunted'' 0 0, 200000),
        (examplePlayer ''k2'' ''Kai'' ''hunted'' 0 0, 200000)] \<and>
   playerRole hunterState = Some ''hunter'' \<and>
   lastPosition hunterState = Some \<lparr>pos_lat = 0, pos_lon = 0, pos_accuracy = 10, pos_timestamp = 0\<rparr> \<and>
   calculateDistance 0 0 (lat (examplePlayer ''k1'' ''Kim'' ''hunted'' 0 0))
     (lon (examplePlayer ''k1'' ''Kim'' ''hunted'' 0 0)) \<le> CAPTURE_DISTANCE \<and>
   calculateDistance 0 0 (lat (examplePlayer ''k2'' ''Kai'' ''hunted'' 0 0))
     (lon (examplePlayer ''k2'' ''Kai'' ''hunted'' 0 0)) \<le> CAPTURE_DISTANCE \<and>
   endTitle (fst (result (updateOtherPlayers calculateDistance 200000
          (Some [examplePlayer ''k1'' ''Kim'' ''hunted'' 0 0, examplePlayer ''k2'' ''Kai'' ''hunted'' 0 0])
          hunterState))) = ''Victory!'' \<and>
   endMessage (fst (result (updateOtherPlayers calculateDistance 200000
          (Some [examplePlayer ''k1'' ''Kim'' ''hunted'' 0 0, examplePlayer ''k2'' ''Kai'' ''hunted'' 0 0])
          hunterState))) = ''You captured Kai!'' \<and>
   endMessage (fst (result (updateOtherPlayers calculateDistance 200000
          (Some [examplePlayer ''k1'' ''Kim'' ''hunted'' 0 0, examplePlayer ''k2'' ''Kai'' ''hunted'' 0 0])
          hunterState))) \<noteq> ''You captured Kim!''"
  by (simp add: client_eval)

text \<open>
  C4, amended. When a pass over a snapshot returns and visible opponents lie within
  \<^verbatim>\<open>CAPTURE_DISTANCE\<close> of the hunter's position by the distance computed, the session
  ends as a victory and the end message names the last of them in the order of the
  snapshot: \<^const>\<open>endGame\<close> runs for each in turn.
\<close>

theorem capture_names_last:
  assumes "is_Normal (updateOtherPlayers calc now (Some locs) s)"
    and "playerRole s = Some ''hunter''" and "lastPosition s = Some own"
    and "caps = filter (\<lambda>(e, age). calc (pos_lat own) (pos_lon own) (lat e) (lon e)
                                      \<le> CAPTURE_DISTANCE)
                  (snd (result (updateOtherPlayers calc now (Some locs) s)))"
    and "caps \<noteq> []"
  shows "snd (result (updateOtherPlayers calc now (Some locs) s)) =
           filterVisibleOpponents_spec locs s now \<and>
         \<not> isActive (fst (result (updateOtherPlayers calc now (Some locs) s))) \<and>
         endTitle (fst (result (updateOtherPlayers calc now (Some locs) s))) = ''Victory!'' \<and>
         endMessage (fst (result (updateOtherPlayers calc now (Some locs) s))) =
           ''You captured '' @ playerName (fst (last caps)) @ ''!''"
proof -
  let ?shown = "filterVisibleOpponents_spec locs s now"
  have m: "hasMap s"
  proof (rule ccontr)
    assume "\<not> hasMap s"
    then have "updateOtherPlayers calc now (Some locs) s = Normal (s, [])"
      by (rule updateOtherPlayers_no_map)
    with assms(4,5) show False by simp
  qed
  note res = updateOtherPlayers_result [OF m assms(1)]
  have "caps = captured calc s ?shown"
    using assms(2-4) by (simp add: res(1) captured_def withinCapture_def)
  with assms(5) res(3) res(1)
  show ?thesis by (simp add: outcome_def)
qed

theorem capture_names_last_witness:
  "is_Normal (updateOtherPlayers calculateDistance 200000
          (Some [examplePlayer ''k1'' ''Kim'' ''hunted'' 0 0,
                 examplePlayer ''k2'' ''Kai'' ''hunted'' 0 0,
                 examplePlayer ''k3'' ''Kit'' ''hunted'' 0 1])
          hunterState) \<and>
   endMessage (fst (result (updateOtherPlayers calculateDistance 200000
          (Some [examplePlayer ''k1'' ''Kim'' ''hunted'' 0 0,
                 examplePlayer ''k2'' ''Kai'' ''hunted'' 0 0,
                 examplePlayer ''k3'' ''Kit'' ''hunted'' 0 1])
          hunterState))) = ''You captured Kai!''"
proof -
  let ?locs = "[examplePlayer ''k1'' ''Kim'' ''hunted'' 0 0,
                examplePlayer ''k2'' ''Kai'' ''hunted'' 0 0,
                examplePlayer ''k3'' ''Kit'' ''hunted'' 0 1]"
  let ?own = "\<lparr>pos_lat = 0, pos_lon = 0, pos_accuracy = 10, pos_timestamp = 0\<rparr>"
  have n: "is_Normal (updateOtherPlayers calculateDistance 200000 (Some ?locs) hunterState)"
    by (simp add: client_eval)
  have shown: "snd (result (updateOtherPlayers calculateDistance 200000 (Some ?locs) hunterState)) =
                 filterVisibleOpponents_spec ?locs hunterState 200000"
    using hunterState_simps(1) n by (rule updateOtherPlayers_result(1))
  have shown': "snd (result (updateOtherPlayers calculateDistance 200000 (Some ?locs) hunterState)) =
                  [(examplePlayer ''k1'' ''Kim'' ''hunted'' 0 0, 200000),
                   (examplePlayer ''k2'' ''Kai'' ''hunted'' 0 0, 200000),
                   (examplePlayer ''k3'' ''Kit'' ''hunted'' 0 1, 200000)]"
    unfolding shown
    by (simp add: filterVisibleOpponents_spec_def hunterState_simps examplePlayer_def)
  have caps: "filter (\<lambda>(e, age). calculateDistance (pos_lat ?own) (pos_lon ?own) (lat e) (lon e)
                                      \<le> CAPTURE_DISTANCE)
                (snd (result (updateOtherPlayers calculateDistance 200000 (Some ?locs) hunterState))) =
                  [(examplePlayer ''k1'' ''Kim'' ''hunted'' 0 0, 200000),
                   (examplePlayer ''k2'' ''Kai'' ''hunted'' 0 0, 200000)]"
    unfolding shown'
    by (simp add: examplePlayer_def CAPTURE_DISTANCE_def calculateDistance_far)
  have "endMessage (fst (result (updateOtherPlayers calculateDistance 200000 (Some ?locs) hunterState))) =
          ''You captured '' @ playerName (fst (last [(examplePlayer ''k1'' ''Kim'' ''hunted'' 0 0, 200000::int),
                   (examplePlayer ''k2'' ''Kai'' ''hunted'' 0 0, 200000)])) @ ''!''"
    using capture_names_last [OF n hunterState_simps(3) hunterState_simps(5) caps [symmetric]]
    by simp
  with n show ?thesis
    by (simp add: examplePlayer_def)
qed

section \<open>Properties of the countdown\<close>

text \<open>
  C5. In a running session \<^verbatim>\<open>updateTimer\<close> ends the game exactly when the time elapsed
  since the start has reached \<^verbatim>\<open>GAME_DURATION\<close>, which is 600000 ms, and it ends it
  with the timeout title and the survival message: at 599999 ms the session stays active,
  at 600000 ms it is over.
\<close>

theorem updateTimer_timeout_iff:
  assumes "isActive s" and "startTime s = Some t0"
  shows "(\<not> isActive (updateTimer now s) \<longleftrightarrow> now - t0 \<ge> GAME_DURATION) \<and>
         (\<not> isActive (updateTimer now s) \<longrightarrow>
            endTitle (updateTimer now s) = ''Time's Up!'' \<and>
            endMessage (updateTimer now s) = ''Time's up! Hunted players survived.'') \<and>
         GAME_DURATION = 600000 \<and>
         (now - t0 = 599999 \<longrightarrow> isActive (updateTimer now s)) \<and>
         (now - t0 = 600000 \<longrightarrow> \<not> isActive (updateTimer now s))"
  using assms by (auto simp: updateTimer_def endGame_def GAME_DURATION_def Let_def)

theorem updateTimer_timeout_iff_witness:
  "isActive (gameState0\<lparr>isActive := True, startTime := Some 1000\<rparr>) \<and>
   startTime (gameState0\<lparr>isActive := True, startTime := Some 1000\<rparr>) = Some 1000 \<and>
   isActive (updateTimer 600999 (gameState0\<lparr>isActive := True, startTime := Some 1000\<rparr>)) \<and>
   \<not> isActive (updateTimer 601000 (gameState0\<lparr>isActive := True, startTime := Some 1000\<rparr>)) \<and>
   endTitle (updateTimer 601000 (gameState0\<lparr>isActive := True, startTime := Some 1000\<rparr>))
     = ''Time's Up!''"
  using updateTimer_timeout_iff [of "gameState0\<lparr>isActive := True, startTime := Some 1000\<rparr>" 1000 600999]
        updateTimer_timeout_iff [of "gameState0\<lparr>isActive := True, startTime := Some 1000\<rparr>" 1000 601000]
  by (simp add: gameState0_def)

end
